theory Spec2Isabelle
  imports Complex_Main
begin

section \<open>JavaScript numbers\<close>

text \<open>
  A JavaScript number is modelled as an exact real or one of the three special values of
  IEEE arithmetic. Rounding and the sign of zero are not modelled: every zero is
  \<open>+0\<close>, which is what the code meets, since image dimensions and canvas sizes are
  not negative. Division by zero is written out, because HOL's \<open>x / 0 = 0\<close> is not
  what JavaScript computes.
\<close>

datatype jsnum = Fin real | PInf | NInf | NaN

fun js_div :: "jsnum \<Rightarrow> jsnum \<Rightarrow> jsnum" where
  "js_div NaN _ = NaN"
| "js_div _ NaN = NaN"
| "js_div (Fin x) (Fin y) =
     (if y = 0 then (if x = 0 then NaN else if 0 < x then PInf else NInf)
      else Fin (x / y))"
| "js_div (Fin x) PInf = Fin 0"
| "js_div (Fin x) NInf = Fin 0"
| "js_div PInf (Fin y) = (if y < 0 then NInf else PInf)"
| "js_div NInf (Fin y) = (if y < 0 then PInf else NInf)"
| "js_div PInf PInf = NaN"
| "js_div PInf NInf = NaN"
| "js_div NInf PInf = NaN"
| "js_div NInf NInf = NaN"

fun js_mul :: "jsnum \<Rightarrow> jsnum \<Rightarrow> jsnum" where
  "js_mul NaN _ = NaN"
| "js_mul _ NaN = NaN"
| "js_mul (Fin x) (Fin y) = Fin (x * y)"
| "js_mul (Fin x) PInf = (if x = 0 then NaN else if 0 < x then PInf else NInf)"
| "js_mul (Fin x) NInf = (if x = 0 then NaN else if 0 < x then NInf else PInf)"
| "js_mul PInf (Fin y) = (if y = 0 then NaN else if 0 < y then PInf else NInf)"
| "js_mul NInf (Fin y) = (if y = 0 then NaN else if 0 < y then NInf else PInf)"
| "js_mul PInf PInf = PInf"
| "js_mul PInf NInf = NInf"
| "js_mul NInf PInf = NInf"
| "js_mul NInf NInf = PInf"

section \<open>The Scene Unit: background.js\<close>

text \<open>
  A texture is an object whose \<open>image\<close> may be missing; an image has a width and a
  height. The constructor's \<open>texture\<close> argument may be \<open>null\<close>, which is \<open>None\<close>.
\<close>

record Image =
  image_width :: nat
  image_height :: nat

record Texture =
  image :: "Image option"

text \<open>\<open>PlaneGeometry(width, height)\<close>: its \<open>parameters\<close> keep the two arguments.\<close>

record PlaneGeometry =
  geometry_width :: jsnum
  geometry_height :: jsnum

text \<open>
  \<open>BackgroundCamera\<close> and \<open>getMaxFullScreenDepthForPlane\<close> are declared in
  \<open>background-camera\<close>, which is not among the sources. A construction of the one and a
  call of the other are recorded with their arguments and not evaluated.
\<close>

datatype BackgroundCamera = BackgroundCamera PlaneGeometry real real

datatype Depth = getMaxFullScreenDepthForPlane PlaneGeometry BackgroundCamera real

text \<open>\<open>Particles(width, height, maxDepth)\<close>, kept as its three arguments.\<close>

record Particles =
  particles_width :: jsnum
  particles_height :: jsnum
  particles_maxDepth :: Depth

text \<open>
  An object's identity. A unit the caller constructs carries the caller's tag; a blank unit
  the pass constructs itself carries the number of blank units made before it. Two
  references are the same object exactly when the tags are equal.
\<close>

datatype ref = Supplied nat | Synthesized nat

text \<open>
  Of a Background, the model keeps what the constructor computes once: the map of the
  plane's material (the texture as given), the plane's geometry and the particles. Sizes,
  camera and particle motion and released resources change over time and live in the
  trace of the run, not in the object.
\<close>

record Background =
  bg_ref :: ref
  material_map :: "Texture option"
  plane :: PlaneGeometry
  particles :: Particles

definition textureAspectRatio :: "Texture option \<Rightarrow> jsnum" where
  "textureAspectRatio texture =
     (case texture of
        None \<Rightarrow> Fin 1
      | Some t \<Rightarrow>
          (case image t of
             None \<Rightarrow> Fin 1
           | Some i \<Rightarrow> js_div (Fin (real (image_width i))) (Fin (real (image_height i)))))"

definition new_Background :: "ref \<Rightarrow> Texture option \<Rightarrow> real \<Rightarrow> real \<Rightarrow> Background" where
  "new_Background r texture w h =
     (let p = \<lparr>geometry_width = Fin 1,
                geometry_height = js_div (Fin 1) (textureAspectRatio texture)\<rparr>;
          camera = BackgroundCamera p w h
      in \<lparr>bg_ref = r,
          material_map = texture,
          plane = p,
          particles =
            \<lparr>particles_width = js_mul (geometry_width p) (Fin (11 / 10)),
             particles_height = js_mul (geometry_height p) (Fin (11 / 10)),
             particles_maxDepth = getMaxFullScreenDepthForPlane p camera 0\<rparr>\<rparr>)"

datatype error = TypeError string

text \<open>
  \<open>Background.dispose\<close> releases, in this order, the buffer, its texture, its depth
  texture, the plane's geometry and the plane's material, and then reads
  \<open>this._plane.material.map.dispose\<close>: with a \<open>null\<close> map that read throws. Otherwise
  the map, the scene, the effects and the particles are released too.
\<close>

definition Background_dispose :: "Background \<Rightarrow> error + unit" where
  "Background_dispose bg =
     (case material_map bg of
        None \<Rightarrow> Inl (TypeError ''this._plane.material.map is null'')
      | Some t \<Rightarrow> Inr ())"

section \<open>The Transition Effect\<close>

datatype Shader = BlendShader | WipeShader | SlideShader | BlurShader | GlitchShader

text \<open>
  \<open>WipeDirection\<close> and \<open>SlideDirection\<close> are enums of the shader modules, which are
  not among the sources. The pass names one member of each, \<open>Right\<close>; every other
  member is kept by a number.
\<close>

datatype WipeDirection = WipeDirection_Right | WipeDirection_other nat

datatype SlideDirection = SlideDirection_Right | SlideDirection_other nat

text \<open>
  The value of a uniform: a number, a direction, a reference to a \<open>Vector2\<close> in the store
  of vectors, or the value the shader itself declares for a uniform that nobody has
  written yet (the shader modules are not among the sources, so that value is only named).
\<close>

datatype uvalue =
    UNum jsnum
  | UWipeDirection WipeDirection
  | USlideDirection SlideDirection
  | UVector2 nat
  | ShaderDefault Shader string

type_synonym Uniforms = "string \<rightharpoonup> uvalue"

record TransitionEffect =
  effect_id :: nat
  shader :: Shader
  uniforms :: Uniforms

text \<open>
  Modelled from the spec: the class \<open>TransitionEffect\<close> of \<open>effects/effect\<close> is not
  among the sources. The spec (4.2): it is constructed with a shader program and an initial
  uniform set; \<open>updateUniforms(partial)\<close> merges new values into the live uniform set
  without replacing unrelated entries; \<open>getUniforms()\<close> returns the current set. The
  shaders are taken to declare every uniform the pass writes.
\<close>

definition new_TransitionEffect :: "nat \<Rightarrow> Shader \<Rightarrow> Uniforms \<Rightarrow> TransitionEffect" where
  "new_TransitionEffect i sh us = \<lparr>effect_id = i, shader = sh, uniforms = us\<rparr>"

definition updateUniforms :: "Uniforms \<Rightarrow> TransitionEffect \<Rightarrow> TransitionEffect" where
  "updateUniforms partial e = e\<lparr>uniforms := uniforms e ++ partial\<rparr>"

definition getUniforms :: "TransitionEffect \<Rightarrow> string \<Rightarrow> uvalue" where
  "getUniforms e name =
     (case uniforms e name of Some v \<Rightarrow> v | None \<Rightarrow> ShaderDefault (shader e) name)"

section \<open>The animation engine\<close>

datatype TransitionType = NoneT | Blend | Blur | Wipe | Slide | Glitch

text \<open>
  The configuration a caller passes: every field is optional, and a missing field is
  \<open>None\<close>. The field \<open>direction\<close> is a \<open>WipeDirection\<close> in a wipe's configuration
  and a \<open>SlideDirection\<close> in a slide's, hence two fields here. The callbacks of the caller
  (\<open>onInit\<close>, \<open>onStart\<close>, \<open>onUpdate\<close>, \<open>onComplete\<close>, \<open>onStop\<close>) are code of
  the caller: the model records each call in the trace and takes it to leave the pass alone.
\<close>

record BackgroundTransitionConfig =
  easing :: "(real \<Rightarrow> real) option"
  duration :: "real option"
  delay :: "real option"
  gradient :: "real option"
  angle :: "real option"
  wipe_direction :: "WipeDirection option"
  slides :: "real option"
  intensity :: "real option"
  samples :: "real option"
  slide_direction :: "SlideDirection option"
  seed :: "real option"

definition empty_config :: BackgroundTransitionConfig where
  "empty_config =
     \<lparr>easing = None, duration = None, delay = None, gradient = None, angle = None,
      wipe_direction = None, slides = None, intensity = None, samples = None,
      slide_direction = None, seed = None\<rparr>"

definition Linear_None :: "real \<Rightarrow> real" where
  "Linear_None k = k"

definition degToRad :: "real \<Rightarrow> real" where
  "degToRad degrees = degrees * (pi / 180)"

text \<open>
  What the closures built by \<open>_getTransitionConfig\<close> capture: the background to
  transition to (absent when the caller passed none) and, by kind, the parameters resolved
  in that kind's branch of the \<open>switch\<close>.
\<close>

datatype Resolved =
    R_None
  | R_Blend
  | R_Wipe real real WipeDirection
  | R_Slide real real real SlideDirection
  | R_Blur real real
  | R_Glitch real

record Callbacks =
  cb_background :: "Background option"
  cb_resolved :: Resolved

record TransitionConfig =
  cfg_from :: real
  cfg_to :: real
  cfg_easing :: "real \<Rightarrow> real"
  cfg_duration :: real
  cfg_delay :: real
  cfg_callbacks :: Callbacks

definition or_default :: "'a option \<Rightarrow> 'a \<Rightarrow> 'a" where
  "or_default v d = (case v of None \<Rightarrow> d | Some x \<Rightarrow> x)"

text \<open>
  \<open>_getTransitionConfig\<close>. \<open>rnd\<close> is the number \<open>Math.random()\<close> returns if it is
  called, which happens in the Glitch branch when the seed is missing.
\<close>

definition resolve :: "TransitionType \<Rightarrow> BackgroundTransitionConfig \<Rightarrow> real \<Rightarrow> Resolved" where
  "resolve transition config rnd =
     (case transition of
        NoneT \<Rightarrow> R_None
      | Blend \<Rightarrow> R_Blend
      | Wipe \<Rightarrow> R_Wipe (or_default (gradient config) 0) (or_default (angle config) 0)
                  (or_default (wipe_direction config) WipeDirection_Right)
      | Slide \<Rightarrow> R_Slide (or_default (slides config) 1) (or_default (intensity config) 1)
                  (or_default (samples config) 32)
                  (or_default (slide_direction config) SlideDirection_Right)
      | Blur \<Rightarrow> R_Blur (or_default (intensity config) 1) (or_default (samples config) 32)
      | Glitch \<Rightarrow> R_Glitch (or_default (seed config) rnd))"

definition getTransitionConfig ::
  "Background option \<Rightarrow> TransitionType \<Rightarrow> BackgroundTransitionConfig \<Rightarrow> real \<Rightarrow> TransitionConfig" where
  "getTransitionConfig background transition config rnd =
     \<lparr>cfg_from = 0,
      cfg_to = 1,
      cfg_easing = or_default (easing config) Linear_None,
      cfg_duration = or_default (duration config) 0 * 1000,
      cfg_delay = or_default (delay config) 0 * 1000,
      cfg_callbacks = \<lparr>cb_background = background, cb_resolved = resolve transition config rnd\<rparr>\<rparr>"

text \<open>
  A tween of the animation library (tween.js), which the pass imports and which is not
  part of the repository. It is modelled after the library's documented behaviour, which
  the spec's description of the progress animation (3, 5, 6) agrees with: \<open>start()\<close>
  makes the tween play from \<open>now + delay\<close>; the start callback runs right before the
  tween starts animating, that is at the first update at or after the start time, not in
  \<open>start()\<close>; every such update runs the update callback with the eased value; the
  update that reaches the end runs the complete callback and the tween plays no more (a
  duration of 0 completes at the first update after the delay); \<open>stop()\<close> on a playing
  tween runs the stop callback, and does nothing otherwise. The model keeps what the pass
  uses: the tweened \<open>amount\<close>, the duration, the delay, the easing, the callbacks,
  whether the tween is playing, whether its start callback has fired, and its start time.
  \<open>new TWEEN.Tween()\<close> has no callbacks and does not play.
\<close>

record Tween =
  valuesStart :: real
  valuesEnd :: real
  tw_duration :: real
  tw_delayTime :: real
  tw_easingFunction :: "real \<Rightarrow> real"
  tw_callbacks :: "Callbacks option"
  isPlaying :: bool
  onStartCallbackFired :: bool
  startTime :: real

definition new_Tween :: Tween where
  "new_Tween =
     \<lparr>valuesStart = 0, valuesEnd = 0, tw_duration = 1000, tw_delayTime = 0,
      tw_easingFunction = Linear_None, tw_callbacks = None, isPlaying = False,
      onStartCallbackFired = False, startTime = 0\<rparr>"

text \<open>
  \<open>new TWEEN.Tween(from).to(to, duration).easing(easing).onStart(..) ... .delay(delay).start()\<close>
  at the time \<open>now\<close>.
\<close>

definition start_Tween :: "TransitionConfig \<Rightarrow> real \<Rightarrow> Tween" where
  "start_Tween c now =
     \<lparr>valuesStart = cfg_from c, valuesEnd = cfg_to c, tw_duration = cfg_duration c,
      tw_delayTime = cfg_delay c, tw_easingFunction = cfg_easing c,
      tw_callbacks = Some (cfg_callbacks c), isPlaying = True,
      onStartCallbackFired = False, startTime = now + cfg_delay c\<rparr>"

section \<open>The Transition Orchestrator: transition-pass.ts\<close>

text \<open>
  Where a render goes: the screen (\<open>null\<close>), a buffer of the caller, or the buffer the
  pass owns.
\<close>

datatype target = Screen | Buffer nat | PassBuffer

text \<open>What a run does to the objects around the pass, in the order it does it.\<close>

datatype event =
    BackgroundRender ref target
  | BackgroundSetSize ref real real
  | BackgroundDispose ref
  | BufferSetSize real real
  | BufferDispose
  | EffectConstruct nat Shader
  | EffectRender nat target target target
  | EffectDispose nat
  | UserCallback string "ref option list"

text \<open>
  The fields of the pass, and the world it acts on: the tweens it has replaced (they stay
  in the library's group for as long as they play), the store of \<open>Vector2\<close> objects, the
  numbers of effects, blank units and vectors made so far, and the trace.
\<close>

record TransitionPass =
  width :: real
  height :: real
  prevBackground :: Background
  transition_tween :: Tween
  transitionEffect :: "TransitionEffect option"
  enabled :: bool
  renderToScreen :: bool
  replaced_tweens :: "Tween list"
  vectors :: "nat \<Rightarrow> real \<times> real"
  vectors_made :: nat
  effects_made :: nat
  blanks_made :: nat
  trace :: "event list"

definition emit :: "event list \<Rightarrow> TransitionPass \<Rightarrow> TransitionPass" where
  "emit evs s = s\<lparr>trace := trace s @ evs\<rparr>"

definition then_do :: "error + 'a \<Rightarrow> ('a \<Rightarrow> error + 'b) \<Rightarrow> error + 'b" where
  "then_do r f = (case r of Inl e \<Rightarrow> Inl e | Inr x \<Rightarrow> f x)"

text \<open>
  The constructor. \<open>background || new Background(null, width, height)\<close>; the pass is
  disabled; \<open>_transition\<close> is a fresh tween and \<open>_transitionEffect\<close> is undefined.
\<close>

definition new_TransitionPass :: "Background option \<Rightarrow> real \<Rightarrow> real \<Rightarrow> TransitionPass" where
  "new_TransitionPass background w h =
     \<lparr>width = w,
      height = h,
      prevBackground =
        (case background of Some b \<Rightarrow> b | None \<Rightarrow> new_Background (Synthesized 0) None w h),
      transition_tween = new_Tween,
      transitionEffect = None,
      enabled = False,
      renderToScreen = False,
      replaced_tweens = [],
      vectors = (\<lambda>a. (0, 0)),
      vectors_made = 0,
      effects_made = 0,
      blanks_made = (case background of Some b \<Rightarrow> 0 | None \<Rightarrow> 1),
      trace = []\<rparr>"

definition setSize :: "real \<Rightarrow> real \<Rightarrow> TransitionPass \<Rightarrow> TransitionPass" where
  "setSize w h s =
     emit [BackgroundSetSize (bg_ref (prevBackground s)) w h, BufferSetSize w h]
       (s\<lparr>width := w, height := h\<rparr>)"

definition isTransitioning :: "TransitionPass \<Rightarrow> bool" where
  "isTransitioning s = isPlaying (transition_tween s)"

definition setTransitionEffect :: "Shader \<Rightarrow> Uniforms \<Rightarrow> TransitionPass \<Rightarrow> TransitionPass" where
  "setTransitionEffect sh us s =
     (let s1 = (case transitionEffect s of
                  Some e \<Rightarrow> emit [EffectDispose (effect_id e)] (s\<lparr>transitionEffect := None\<rparr>)
                | None \<Rightarrow> s)
      in emit [EffectConstruct (effects_made s1) sh]
           (s1\<lparr>transitionEffect := Some (new_TransitionEffect (effects_made s1) sh us),
               effects_made := Suc (effects_made s1)\<rparr>))"

subsection \<open>The callbacks built by \<open>_getTransitionConfig\<close>\<close>

definition onTransitionStart :: "TransitionPass \<Rightarrow> TransitionPass" where
  "onTransitionStart s = s\<lparr>enabled := True\<rparr>"

definition onTransitionEnd :: "Background option \<Rightarrow> TransitionPass \<Rightarrow> error + TransitionPass" where
  "onTransitionEnd background s =
     (let s1 = s\<lparr>enabled := False\<rparr>
      in then_do (Background_dispose (prevBackground s1))
           (\<lambda>u. let s2 = emit [BackgroundDispose (bg_ref (prevBackground s1))] s1
                in Inr (case background of
                          Some b \<Rightarrow> s2\<lparr>prevBackground := b\<rparr>
                        | None \<Rightarrow>
                            s2\<lparr>prevBackground :=
                                 new_Background (Synthesized (blanks_made s2)) None
                                   (width s2) (height s2),
                               blanks_made := Suc (blanks_made s2)\<rparr>)))"

text \<open>A call of one of the caller's callbacks with the previous and the new background.\<close>

definition user :: "string \<Rightarrow> Callbacks \<Rightarrow> TransitionPass \<Rightarrow> TransitionPass" where
  "user name cb s =
     emit [UserCallback name
             [Some (bg_ref (prevBackground s)), map_option bg_ref (cb_background cb)]] s"

definition base_onInit :: "Callbacks \<Rightarrow> TransitionPass \<Rightarrow> TransitionPass" where
  "base_onInit cb s = user ''onInit'' cb s"

definition base_onStart :: "Callbacks \<Rightarrow> TransitionPass \<Rightarrow> TransitionPass" where
  "base_onStart cb s = onTransitionStart (user ''onStart'' cb s)"

definition base_onUpdate :: "Callbacks \<Rightarrow> TransitionPass \<Rightarrow> TransitionPass" where
  "base_onUpdate cb s = user ''onUpdate'' cb s"

definition base_onComplete :: "Callbacks \<Rightarrow> TransitionPass \<Rightarrow> error + TransitionPass" where
  "base_onComplete cb s = onTransitionEnd (cb_background cb) (user ''onComplete'' cb s)"

definition base_onStop :: "Callbacks \<Rightarrow> TransitionPass \<Rightarrow> error + TransitionPass" where
  "base_onStop cb s = onTransitionEnd (cb_background cb) (user ''onStop'' cb s)"

text \<open>
  \<open>onStart\<close> by kind. In the branch of \<open>None\<close> the name \<open>onStart\<close> is the caller's
  callback, called without arguments; in the other branches it is the base callback, which
  enables the pass.
\<close>

definition onStart :: "Callbacks \<Rightarrow> TransitionPass \<Rightarrow> TransitionPass" where
  "onStart cb s =
     (case cb_resolved cb of
        R_None \<Rightarrow>
          emit [UserCallback ''onStart'' []]
            (setTransitionEffect BlendShader [''mixRatio'' \<mapsto> UNum (Fin 1)] s)
      | R_Blend \<Rightarrow> base_onStart cb (setTransitionEffect BlendShader Map.empty s)
      | R_Wipe g a d \<Rightarrow>
          base_onStart cb
            (setTransitionEffect WipeShader
               [''gradient'' \<mapsto> UNum (Fin g),
                ''angle'' \<mapsto> UNum (Fin (degToRad a)),
                ''direction'' \<mapsto> UWipeDirection d,
                ''aspect'' \<mapsto> UNum (js_div (Fin (width s)) (Fin (height s)))] s)
      | R_Slide n i m d \<Rightarrow>
          base_onStart cb
            (setTransitionEffect SlideShader
               [''slides'' \<mapsto> UNum (Fin n),
                ''intensity'' \<mapsto> UNum (Fin i),
                ''samples'' \<mapsto> UNum (Fin m),
                ''direction'' \<mapsto> USlideDirection d] s)
      | R_Blur i m \<Rightarrow>
          base_onStart cb
            (setTransitionEffect BlurShader
               [''intensity'' \<mapsto> UNum (Fin i), ''samples'' \<mapsto> UNum (Fin m)] s)
      | R_Glitch sd \<Rightarrow>
          (let a = vectors_made s;
               s1 = s\<lparr>vectors := (vectors s)(a := (width s, height s)),
                      vectors_made := Suc a\<rparr>
           in base_onStart cb
                (setTransitionEffect GlitchShader
                   [''seed'' \<mapsto> UNum (Fin sd), ''resolution'' \<mapsto> UVector2 a] s1)))"

definition undefined_effect :: error where
  "undefined_effect = TypeError ''this._transitionEffect is undefined''"

text \<open>
  \<open>this._transitionEffect.updateUniforms(..)\<close> followed by the base \<open>onUpdate\<close>; the
  read of the effect throws when there is none.
\<close>

definition update_effect ::
  "(TransitionEffect \<Rightarrow> Uniforms) \<Rightarrow> Callbacks \<Rightarrow> TransitionPass \<Rightarrow> error + TransitionPass" where
  "update_effect partial cb s =
     (case transitionEffect s of
        None \<Rightarrow> Inl undefined_effect
      | Some e \<Rightarrow>
          Inr (base_onUpdate cb (s\<lparr>transitionEffect := Some (updateUniforms (partial e) e)\<rparr>)))"

definition onUpdate :: "Callbacks \<Rightarrow> real \<Rightarrow> TransitionPass \<Rightarrow> error + TransitionPass" where
  "onUpdate cb amount s =
     (case cb_resolved cb of
        R_None \<Rightarrow> Inr (base_onUpdate cb s)
      | R_Blend \<Rightarrow> update_effect (\<lambda>e. [''mixRatio'' \<mapsto> UNum (Fin amount)]) cb s
      | R_Wipe g a d \<Rightarrow>
          update_effect
            (\<lambda>e. [''amount'' \<mapsto> UNum (Fin amount),
                  ''aspect'' \<mapsto> UNum (js_div (Fin (width s)) (Fin (height s)))]) cb s
      | R_Slide n i m d \<Rightarrow>
          update_effect
            (\<lambda>e. [''prevAmount'' \<mapsto> getUniforms e ''amount'',
                  ''amount'' \<mapsto> UNum (Fin amount)]) cb s
      | R_Blur i m \<Rightarrow>
          update_effect
            (\<lambda>e. [''prevAmount'' \<mapsto> getUniforms e ''amount'',
                  ''amount'' \<mapsto> UNum (Fin amount)]) cb s
      | R_Glitch sd \<Rightarrow>
          (case transitionEffect s of
             None \<Rightarrow> Inl undefined_effect
           | Some e \<Rightarrow>
               (case getUniforms e ''resolution'' of
                  UVector2 a \<Rightarrow>
                    update_effect (\<lambda>e. [''amount'' \<mapsto> UNum (Fin amount)]) cb
                      (s\<lparr>vectors := (vectors s)(a := (width s, height s))\<rparr>)
                | _ \<Rightarrow> Inl (TypeError ''resolution.set is not a function''))))"

subsection \<open>Stopping and updating a tween\<close>

text \<open>
  \<open>Tween.stop\<close>: nothing when the tween does not play; otherwise the tween leaves the
  group, stops playing, and its stop callback runs.
\<close>

definition Tween_stop :: "Tween \<Rightarrow> TransitionPass \<Rightarrow> error + Tween \<times> TransitionPass" where
  "Tween_stop tw s =
     (if \<not> isPlaying tw then Inr (tw, s)
      else
        (let tw1 = tw\<lparr>isPlaying := False\<rparr>
         in case tw_callbacks tw of
              None \<Rightarrow> Inr (tw1, s)
            | Some cb \<Rightarrow> then_do (base_onStop cb s) (\<lambda>s1. Inr (tw1, s1))))"

definition elapsed_at :: "Tween \<Rightarrow> real \<Rightarrow> real" where
  "elapsed_at tw time =
     (let elapsed = (time - startTime tw) / tw_duration tw
      in if tw_duration tw = 0 \<or> 1 < elapsed then 1 else elapsed)"

definition amount_at :: "Tween \<Rightarrow> real \<Rightarrow> real" where
  "amount_at tw time =
     valuesStart tw + (valuesEnd tw - valuesStart tw) * tw_easingFunction tw (elapsed_at tw time)"

text \<open>
  \<open>Tween.update(time)\<close> for a tween of the group: nothing before the start time; then
  the start callback once, the update callback with the eased amount, and at
  \<open>elapsed = 1\<close> the complete callback, after which the tween leaves the group and plays
  no more. A tween that does not play is not in the group and is not updated.
\<close>

definition Tween_update :: "real \<Rightarrow> Tween \<Rightarrow> TransitionPass \<Rightarrow> error + Tween \<times> TransitionPass" where
  "Tween_update time tw s =
     (if \<not> isPlaying tw then Inr (tw, s)
      else if time < startTime tw then Inr (tw, s)
      else
        (let s1 = (if onStartCallbackFired tw then s
                   else case tw_callbacks tw of None \<Rightarrow> s | Some cb \<Rightarrow> onStart cb s);
             tw1 = tw\<lparr>onStartCallbackFired := True\<rparr>
         in then_do
              (case tw_callbacks tw of
                 None \<Rightarrow> Inr s1
               | Some cb \<Rightarrow> onUpdate cb (amount_at tw time) s1)
              (\<lambda>s2. if elapsed_at tw time = 1
                    then then_do
                           (case tw_callbacks tw of
                              None \<Rightarrow> Inr s2
                            | Some cb \<Rightarrow> base_onComplete cb s2)
                           (\<lambda>s3. Inr (tw1\<lparr>isPlaying := False\<rparr>, s3))
                    else Inr (tw1, s2))))"

fun update_tweens :: "real \<Rightarrow> Tween list \<Rightarrow> TransitionPass \<Rightarrow> error + Tween list \<times> TransitionPass" where
  "update_tweens time [] s = Inr ([], s)"
| "update_tweens time (tw # tws) s =
     then_do (Tween_update time tw s)
       (\<lambda>(tw1, s1). then_do (update_tweens time tws s1)
                      (\<lambda>(tws1, s2). Inr (tw1 # tws1, s2)))"

text \<open>
  \<open>TWEEN.update(time)\<close>: every tween of the group is updated, in the order in which
  the tweens were made, so the replaced ones before the current one.
\<close>

definition TWEEN_update :: "real \<Rightarrow> TransitionPass \<Rightarrow> error + TransitionPass" where
  "TWEEN_update time s =
     then_do (update_tweens time (replaced_tweens s) s)
       (\<lambda>(tws, s1). then_do (Tween_update time (transition_tween s1) s1)
                      (\<lambda>(tw, s2). Inr (s2\<lparr>replaced_tweens := tws, transition_tween := tw\<rparr>)))"

subsection \<open>The methods of the pass\<close>

text \<open>
  \<open>transition(background, transition, config)\<close>, called at the time \<open>now\<close>. The
  configuration is resolved first, the current tween is stopped, \<open>onInit\<close> runs, and a
  new tween is made and started.
\<close>

definition transition ::
  "Background option \<Rightarrow> TransitionType \<Rightarrow> BackgroundTransitionConfig \<Rightarrow> real \<Rightarrow> real \<Rightarrow>
     TransitionPass \<Rightarrow> error + TransitionPass" where
  "transition background kind config now rnd s =
     (let c = getTransitionConfig background kind config rnd
      in then_do (Tween_stop (transition_tween s) s)
           (\<lambda>(tw, s1).
              let s2 = base_onInit (cfg_callbacks c) s1
              in Inr (s2\<lparr>replaced_tweens := replaced_tweens s2 @ [tw],
                         transition_tween := start_Tween c now\<rparr>)))"

definition render :: "target \<Rightarrow> target \<Rightarrow> TransitionPass \<Rightarrow> error + TransitionPass" where
  "render writeBuffer readBuffer s =
     (if isTransitioning s
      then (let s1 = emit [BackgroundRender (bg_ref (prevBackground s)) PassBuffer] s
            in case transitionEffect s1 of
                 None \<Rightarrow> Inl undefined_effect
               | Some e \<Rightarrow>
                   Inr (emit [EffectRender (effect_id e)
                                (if renderToScreen s1 then Screen else writeBuffer)
                                PassBuffer readBuffer] s1))
      else Inr s)"

definition dispose :: "TransitionPass \<Rightarrow> error + TransitionPass" where
  "dispose s =
     then_do (Tween_stop (transition_tween s) s)
       (\<lambda>(tw, s1).
          let s2 = s1\<lparr>transition_tween := tw\<rparr>
          in then_do (Background_dispose (prevBackground s2))
               (\<lambda>u. let s3 = emit [BackgroundDispose (bg_ref (prevBackground s2)), BufferDispose] s2
                    in case transitionEffect s3 of
                         None \<Rightarrow> Inl undefined_effect
                       | Some e \<Rightarrow> Inr (emit [EffectDispose (effect_id e)] s3)))"

subsection \<open>Runs\<close>

text \<open>
  The calls a host makes on a pass that it has not disposed, and the states they reach
  when no call throws.
\<close>

datatype call =
    Transition "Background option" TransitionType BackgroundTransitionConfig real real
  | Update real
  | Render target target
  | SetSize real real

fun step :: "call \<Rightarrow> TransitionPass \<Rightarrow> error + TransitionPass" where
  "step (Transition background kind config now rnd) s = transition background kind config now rnd s"
| "step (Update time) s = TWEEN_update time s"
| "step (Render writeBuffer readBuffer) s = render writeBuffer readBuffer s"
| "step (SetSize w h) s = Inr (setSize w h s)"

fun run :: "call list \<Rightarrow> TransitionPass \<Rightarrow> error + TransitionPass" where
  "run [] s = Inr s"
| "run (c # cs) s = then_do (step c s) (run cs)"

inductive reachable :: "TransitionPass \<Rightarrow> bool" where
  reachable_new: "reachable (new_TransitionPass background w h)"
| reachable_step: "reachable s \<Longrightarrow> step c s = Inr s' \<Longrightarrow> reachable s'"

subsection \<open>Names used in the statements\<close>

definition null_map :: error where
  "null_map = TypeError ''this._plane.material.map is null''"

text \<open>The uniforms of the current effect; none when there is no effect.\<close>

definition the_uniforms :: "TransitionPass \<Rightarrow> Uniforms" where
  "the_uniforms s = (case transitionEffect s of None \<Rightarrow> Map.empty | Some e \<Rightarrow> uniforms e)"

text \<open>A unit made from an image of 4 by 3, for a canvas of 800 by 600.\<close>

definition textured :: "ref \<Rightarrow> Background" where
  "textured r =
     new_Background r (Some \<lparr>image = Some \<lparr>image_width = 4, image_height = 3\<rparr>\<rparr>) 800 600"

text \<open>
  The kind the current tween was made for, whether the current tween plays and has fired
  its start callback, and whether the current effect has a vector as its resolution.
\<close>

definition current_kind :: "TransitionPass \<Rightarrow> Resolved option" where
  "current_kind s = map_option cb_resolved (tw_callbacks (transition_tween s))"

definition started :: "TransitionPass \<Rightarrow> bool" where
  "started s \<longleftrightarrow> isPlaying (transition_tween s) \<and> onStartCallbackFired (transition_tween s)"

definition is_glitch :: "Resolved option \<Rightarrow> bool" where
  "is_glitch k = (case k of Some (R_Glitch sd) \<Rightarrow> True | _ \<Rightarrow> False)"

definition has_resolution :: "TransitionPass \<Rightarrow> bool" where
  "has_resolution s = (case the_uniforms s ''resolution'' of Some (UVector2 a) \<Rightarrow> True | _ \<Rightarrow> False)"

text \<open>
  What holds of every state a run reaches: a replaced tween does not play; a playing tween
  has callbacks and tweens the amount from 0 to 1; once the start callback has fired there
  is an effect (with a resolution vector for a glitch); the pass is enabled only while the
  current tween has started; and it is enabled then, unless the kind is \<open>None\<close>.
\<close>

definition pass_inv :: "TransitionPass \<Rightarrow> bool" where
  "pass_inv s \<longleftrightarrow>
     (\<forall>tw \<in> set (replaced_tweens s). \<not> isPlaying tw) \<and>
     (isPlaying (transition_tween s) \<longrightarrow>
        current_kind s \<noteq> None \<and> valuesStart (transition_tween s) = 0 \<and>
        valuesEnd (transition_tween s) = 1) \<and>
     (started s \<longrightarrow> transitionEffect s \<noteq> None \<and> (is_glitch (current_kind s) \<longrightarrow> has_resolution s)) \<and>
     (enabled s \<longrightarrow> started s) \<and>
     (started s \<and> current_kind s \<noteq> Some R_None \<longrightarrow> enabled s)"

text \<open>A pass constructed with a textured unit, for a canvas of 800 by 600.\<close>

definition init0 :: TransitionPass where
  "init0 = new_TransitionPass (Some (textured (Supplied 0))) 800 600"

text \<open>The uniforms \<open>amount\<close> and \<open>prevAmount\<close> at the end of a run.\<close>

definition amounts :: "error + TransitionPass \<Rightarrow> error + uvalue option \<times> uvalue option" where
  "amounts r = map_sum id (\<lambda>s. (the_uniforms s ''amount'', the_uniforms s ''prevAmount'')) r"

text \<open>What \<open>isTransitioning()\<close> returns and the enabled flag, at the end of a run.\<close>

definition flags :: "error + TransitionPass \<Rightarrow> error + bool \<times> bool" where
  "flags r = map_sum id (\<lambda>s. (isTransitioning s, enabled s)) r"

text \<open>
  The order of renders and disposals in a trace: when an effect is rendered, every effect
  constructed before it (the effects are numbered in the order of construction) has been
  disposed earlier in the trace.
\<close>

fun is_render :: "event \<Rightarrow> bool" where
  "is_render (EffectRender i wb fb rb) = True"
| "is_render ev = False"

definition renders_follow_disposals :: "event list \<Rightarrow> bool" where
  "renders_follow_disposals tr \<longleftrightarrow>
     (\<forall>k < length tr.
        case tr ! k of
          EffectRender i wb fb rb \<Rightarrow> (\<forall>j < i. EffectDispose j \<in> set (take k tr))
        | _ \<Rightarrow> True)"

text \<open>
  The effects of a reached state: the current effect has been constructed, every other
  effect constructed so far has been disposed, and renders follow disposals.
\<close>

definition effects_inv :: "TransitionPass \<Rightarrow> bool" where
  "effects_inv s \<longleftrightarrow>
     (\<forall>e. transitionEffect s = Some e \<longrightarrow> effect_id e < effects_made s) \<and>
     (\<forall>j < effects_made s.
        EffectDispose j \<in> set (trace s) \<or> map_option effect_id (transitionEffect s) = Some j) \<and>
     renders_follow_disposals (trace s)"

text \<open>
  A step that renders nothing and keeps the current effect: it only adds events other than
  renders to the trace.
\<close>

definition quietly :: "TransitionPass \<Rightarrow> TransitionPass \<Rightarrow> bool" where
  "quietly s s' \<longleftrightarrow>
     (\<exists>evs. trace s' = trace s @ evs \<and> (\<forall>ev \<in> set evs. \<not> is_render ev)) \<and>
     effects_made s' = effects_made s \<and>
     map_option effect_id (transitionEffect s') = map_option effect_id (transitionEffect s)"

text \<open>The trace at the end of a run.\<close>

definition trace_of :: "error + TransitionPass \<Rightarrow> error + event list" where
  "trace_of r = map_sum id trace r"

text \<open>The calls of a frame that leave the animation and the effect alone.\<close>

fun frame_call :: "call \<Rightarrow> bool" where
  "frame_call (Render writeBuffer readBuffer) = True"
| "frame_call (SetSize w h) = True"
| "frame_call c = False"

section \<open>Basic facts\<close>

lemmas run_defs = then_do_def transition_def getTransitionConfig_def resolve_def or_default_def
  Tween_stop_def new_TransitionPass_def new_Tween_def start_Tween_def base_onInit_def user_def
  emit_def TWEEN_update_def Tween_update_def onStart_def onUpdate_def update_effect_def
  setTransitionEffect_def base_onStart_def base_onUpdate_def base_onComplete_def base_onStop_def
  onTransitionEnd_def onTransitionStart_def Background_dispose_def new_Background_def
  elapsed_at_def amount_at_def Linear_None_def new_TransitionEffect_def updateUniforms_def
  getUniforms_def render_def dispose_def isTransitioning_def undefined_effect_def
  empty_config_def setSize_def textureAspectRatio_def null_map_def textured_def the_uniforms_def
  Let_def

lemma material_map_new_Background [simp]: "material_map (new_Background r t w h) = t"
  by (simp add: new_Background_def Let_def)

lemma bg_ref_new_Background [simp]: "bg_ref (new_Background r t w h) = r"
  by (simp add: new_Background_def Let_def)

lemma Background_dispose_blank:
  "material_map b = None \<Longrightarrow> Background_dispose b = Inl null_map"
  by (simp add: Background_dispose_def null_map_def)

lemma Background_dispose_textured:
  "material_map b = Some t \<Longrightarrow> Background_dispose b = Inr ()"
  by (simp add: Background_dispose_def)

lemma onTransitionEnd_blank:
  "material_map (prevBackground s) = None \<Longrightarrow> onTransitionEnd background s = Inl null_map"
  by (simp add: onTransitionEnd_def Background_dispose_blank then_do_def)

lemma Tween_stop_cases:
  "Tween_stop tw s = Inr (tw, s) \<and> \<not> isPlaying tw \<or>
   (\<exists>cb. tw_callbacks tw = Some cb \<and> isPlaying tw \<and>
      Tween_stop tw s = then_do (base_onStop cb s) (\<lambda>s1. Inr (tw\<lparr>isPlaying := False\<rparr>, s1))) \<or>
   (tw_callbacks tw = None \<and> isPlaying tw \<and> Tween_stop tw s = Inr (tw\<lparr>isPlaying := False\<rparr>, s))"
  by (auto simp add: Tween_stop_def Let_def split: option.splits)

lemma the_uniforms_setTransitionEffect:
  "the_uniforms (base_onStart cb (setTransitionEffect sh us s)) = us"
  by (simp add: the_uniforms_def base_onStart_def onTransitionStart_def user_def emit_def
      setTransitionEffect_def new_TransitionEffect_def Let_def split: option.splits)

section \<open>The invariant of the pass\<close>

lemma update_tweens_idle:
  "\<forall>tw \<in> set tws. \<not> isPlaying tw \<Longrightarrow> update_tweens time tws s = Inr (tws, s)"
  by (induction tws) (simp_all add: Tween_update_def then_do_def)

lemma pass_inv_new: "pass_inv (new_TransitionPass background w h)"
  by (simp add: pass_inv_def new_TransitionPass_def new_Tween_def started_def current_kind_def)

lemma pass_inv_cong:
  "replaced_tweens s' = replaced_tweens s \<Longrightarrow> transition_tween s' = transition_tween s \<Longrightarrow>
   transitionEffect s' = transitionEffect s \<Longrightarrow> enabled s' = enabled s \<Longrightarrow>
   pass_inv s' = pass_inv s"
  by (simp add: pass_inv_def started_def current_kind_def has_resolution_def the_uniforms_def)

lemma pass_inv_emit [simp]: "pass_inv (emit evs s) = pass_inv s"
  by (rule pass_inv_cong) (simp_all add: emit_def)

lemma pass_inv_setSize: "pass_inv s \<Longrightarrow> pass_inv (setSize w h s)"
  by (simp add: setSize_def pass_inv_cong [of "s\<lparr>width := w, height := h\<rparr>" s])

lemma render_emits: "render wb rb s = Inr s' \<Longrightarrow> \<exists>evs. s' = emit evs s"
proof (cases "isTransitioning s")
  case False
  assume "render wb rb s = Inr s'"
  with False have "s' = emit [] s" by (simp add: render_def emit_def)
  then show ?thesis ..
next
  case True
  assume r: "render wb rb s = Inr s'"
  show ?thesis
  proof (cases "transitionEffect s")
    case None
    with True r show ?thesis by (simp add: render_def emit_def Let_def)
  next
    case (Some e)
    with True r have "s' = emit [BackgroundRender (bg_ref (prevBackground s)) PassBuffer,
        EffectRender (effect_id e) (if renderToScreen s then Screen else wb) PassBuffer rb] s"
      by (simp add: render_def emit_def Let_def)
    then show ?thesis ..
  qed
qed

lemma pass_inv_render: "pass_inv s \<Longrightarrow> render wb rb s = Inr s' \<Longrightarrow> pass_inv s'"
  using render_emits by fastforce

lemma onTransitionEnd_fields:
  assumes "onTransitionEnd background s = Inr s'"
  shows "\<not> enabled s'" "transitionEffect s' = transitionEffect s"
    "replaced_tweens s' = replaced_tweens s" "transition_tween s' = transition_tween s"
    "width s' = width s" "height s' = height s" "vectors s' = vectors s"
    "effects_made s' = effects_made s"
    "trace s' = trace s @ [BackgroundDispose (bg_ref (prevBackground s))]"
    "material_map (prevBackground s) \<noteq> None"
    "prevBackground s' = (case background of Some b \<Rightarrow> b
        | None \<Rightarrow> new_Background (Synthesized (blanks_made s)) None (width s) (height s))"
  using assms
  by (auto simp add: onTransitionEnd_def then_do_def emit_def Let_def Background_dispose_def
      split: sum.splits option.splits)

lemma user_fields [simp]:
  "enabled (user n cb s) = enabled s" "transitionEffect (user n cb s) = transitionEffect s"
  "replaced_tweens (user n cb s) = replaced_tweens s" "transition_tween (user n cb s) = transition_tween s"
  "width (user n cb s) = width s" "height (user n cb s) = height s" "vectors (user n cb s) = vectors s"
  "effects_made (user n cb s) = effects_made s" "prevBackground (user n cb s) = prevBackground s"
  "blanks_made (user n cb s) = blanks_made s"
  "trace (user n cb s) = trace s @ [UserCallback n [Some (bg_ref (prevBackground s)), map_option bg_ref (cb_background cb)]]"
  by (simp_all add: user_def emit_def)

lemma Tween_stop_fields:
  assumes "Tween_stop tw s = Inr (tw', s1)"
  shows "\<not> isPlaying tw'" "tw' = tw\<lparr>isPlaying := False\<rparr>"
    "replaced_tweens s1 = replaced_tweens s" "transition_tween s1 = transition_tween s"
    "transitionEffect s1 = transitionEffect s" "effects_made s1 = effects_made s"
    "width s1 = width s" "height s1 = height s" "vectors s1 = vectors s"
    "isPlaying tw \<and> tw_callbacks tw \<noteq> None \<longrightarrow> \<not> enabled s1"
    "\<not> isPlaying tw \<or> tw_callbacks tw = None \<longrightarrow> s1 = s"
proof -
  consider (idle) "\<not> isPlaying tw" "tw' = tw" "s1 = s"
    | (bare) "isPlaying tw" "tw_callbacks tw = None" "tw' = tw\<lparr>isPlaying := False\<rparr>" "s1 = s"
    | (stop) cb where "isPlaying tw" "tw_callbacks tw = Some cb" "tw' = tw\<lparr>isPlaying := False\<rparr>"
        "onTransitionEnd (cb_background cb) (user ''onStop'' cb s) = Inr s1"
    using assms
    by (auto simp add: Tween_stop_def Let_def then_do_def base_onStop_def split: if_splits option.splits sum.splits)
  then have "\<not> isPlaying tw' \<and> tw' = tw\<lparr>isPlaying := False\<rparr> \<and>
    replaced_tweens s1 = replaced_tweens s \<and> transition_tween s1 = transition_tween s \<and>
    transitionEffect s1 = transitionEffect s \<and> effects_made s1 = effects_made s \<and>
    width s1 = width s \<and> height s1 = height s \<and> vectors s1 = vectors s \<and>
    (isPlaying tw \<and> tw_callbacks tw \<noteq> None \<longrightarrow> \<not> enabled s1) \<and>
    (\<not> isPlaying tw \<or> tw_callbacks tw = None \<longrightarrow> s1 = s)"
  proof cases
    case idle then show ?thesis by simp
  next
    case bare then show ?thesis by simp
  next
    case stop
    from onTransitionEnd_fields [OF stop(4)] stop(1,2,3) show ?thesis by simp
  qed
  then show "\<not> isPlaying tw'" "tw' = tw\<lparr>isPlaying := False\<rparr>"
    "replaced_tweens s1 = replaced_tweens s" "transition_tween s1 = transition_tween s"
    "transitionEffect s1 = transitionEffect s" "effects_made s1 = effects_made s"
    "width s1 = width s" "height s1 = height s" "vectors s1 = vectors s"
    "isPlaying tw \<and> tw_callbacks tw \<noteq> None \<longrightarrow> \<not> enabled s1"
    "\<not> isPlaying tw \<or> tw_callbacks tw = None \<longrightarrow> s1 = s"
    by blast+
qed

lemma pass_inv_transition:
  assumes "pass_inv s" "transition background kind config now rnd s = Inr s'"
  shows "pass_inv s'"
proof -
  let ?c = "getTransitionConfig background kind config rnd"
  from assms(2) obtain tw s1 where st: "Tween_stop (transition_tween s) s = Inr (tw, s1)"
    and s': "s' = (base_onInit (cfg_callbacks ?c) s1)\<lparr>replaced_tweens := replaced_tweens (base_onInit (cfg_callbacks ?c) s1) @ [tw],
                         transition_tween := start_Tween ?c now\<rparr>"
    by (auto simp add: transition_def then_do_def Let_def split: sum.splits)
  note f = Tween_stop_fields [OF st]
  have en: "\<not> enabled s1"
  proof (cases "isPlaying (transition_tween s)")
    case True
    with assms(1) have "tw_callbacks (transition_tween s) \<noteq> None"
      by (simp add: pass_inv_def current_kind_def)
    with True f(10) show ?thesis by simp
  next
    case False
    with f(11) have "s1 = s" by simp
    with False assms(1) show ?thesis by (auto simp add: pass_inv_def started_def)
  qed
  have reps: "\<forall>tw \<in> set (replaced_tweens s). \<not> isPlaying tw"
    using assms(1) by (simp add: pass_inv_def)
  show ?thesis using reps f(1) f(3) en
    by (simp add: s' pass_inv_def base_onInit_def started_def start_Tween_def current_kind_def getTransitionConfig_def)
qed


lemma setTransitionEffect_fields [simp]:
  "replaced_tweens (setTransitionEffect sh us s) = replaced_tweens s"
  "transition_tween (setTransitionEffect sh us s) = transition_tween s"
  "enabled (setTransitionEffect sh us s) = enabled s"
  "width (setTransitionEffect sh us s) = width s"
  "height (setTransitionEffect sh us s) = height s"
  "vectors (setTransitionEffect sh us s) = vectors s"
  "prevBackground (setTransitionEffect sh us s) = prevBackground s"
  "transitionEffect (setTransitionEffect sh us s) = Some (new_TransitionEffect (effects_made s) sh us)"
  "effects_made (setTransitionEffect sh us s) = Suc (effects_made s)"
  by (simp_all add: setTransitionEffect_def emit_def Let_def split: option.splits)

lemma base_onStart_fields [simp]:
  "replaced_tweens (base_onStart cb s) = replaced_tweens s"
  "transition_tween (base_onStart cb s) = transition_tween s"
  "enabled (base_onStart cb s)"
  "width (base_onStart cb s) = width s"
  "height (base_onStart cb s) = height s"
  "vectors (base_onStart cb s) = vectors s"
  "prevBackground (base_onStart cb s) = prevBackground s"
  "transitionEffect (base_onStart cb s) = transitionEffect s"
  "effects_made (base_onStart cb s) = effects_made s"
  by (simp_all add: base_onStart_def onTransitionStart_def)

lemma onStart_fields:
  "replaced_tweens (onStart cb s) = replaced_tweens s"
  "transition_tween (onStart cb s) = transition_tween s"
  "enabled (onStart cb s) = (cb_resolved cb \<noteq> R_None \<or> enabled s)"
  "width (onStart cb s) = width s"
  "height (onStart cb s) = height s"
  "prevBackground (onStart cb s) = prevBackground s"
  "transitionEffect (onStart cb s) \<noteq> None"
  "is_glitch (Some (cb_resolved cb)) \<longrightarrow> has_resolution (onStart cb s)"
  "effects_made (onStart cb s) = Suc (effects_made s)"
  by (cases "cb_resolved cb";
      simp add: onStart_def emit_def Let_def is_glitch_def has_resolution_def the_uniforms_def
        new_TransitionEffect_def)+


lemma update_effect_Inr:
  assumes "update_effect partial cb s = Inr s'"
  obtains e where "transitionEffect s = Some e"
    "s' = base_onUpdate cb (s\<lparr>transitionEffect := Some (updateUniforms (partial e) e)\<rparr>)"
  using assms by (cases "transitionEffect s") (simp_all add: update_effect_def)

lemma update_effect_fields:
  assumes "update_effect partial cb s = Inr s'"
  shows "replaced_tweens s' = replaced_tweens s" "transition_tween s' = transition_tween s"
    "enabled s' = enabled s" "width s' = width s" "height s' = height s"
    "vectors s' = vectors s" "prevBackground s' = prevBackground s"
    "effects_made s' = effects_made s" "transitionEffect s' \<noteq> None"
    "the_uniforms s' = the_uniforms s ++ partial (the (transitionEffect s))"
  using assms
  by (auto elim!: update_effect_Inr simp add: base_onUpdate_def the_uniforms_def updateUniforms_def)

lemma has_resolution_add:
  "the_uniforms s' ''resolution'' = the_uniforms s ''resolution'' \<Longrightarrow>
   has_resolution s \<longrightarrow> has_resolution s'"
  by (simp add: has_resolution_def)

lemma onUpdate_fields:
  assumes "onUpdate cb a s = Inr s'"
  shows "replaced_tweens s' = replaced_tweens s" "transition_tween s' = transition_tween s"
    "enabled s' = enabled s" "width s' = width s" "height s' = height s"
    "prevBackground s' = prevBackground s" "effects_made s' = effects_made s"
    "transitionEffect s \<noteq> None \<longrightarrow> transitionEffect s' \<noteq> None"
    "has_resolution s \<longrightarrow> has_resolution s'"
proof -
  have "replaced_tweens s' = replaced_tweens s \<and> transition_tween s' = transition_tween s \<and>
    enabled s' = enabled s \<and> width s' = width s \<and> height s' = height s \<and>
    prevBackground s' = prevBackground s \<and> effects_made s' = effects_made s \<and>
    (transitionEffect s \<noteq> None \<longrightarrow> transitionEffect s' \<noteq> None) \<and>
    (has_resolution s \<longrightarrow> has_resolution s')"
  proof (cases "cb_resolved cb")
    case R_None
    with assms show ?thesis
      by (auto simp add: onUpdate_def base_onUpdate_def has_resolution_def the_uniforms_def)
  next
    case R_Blend
    with assms have u: "update_effect (\<lambda>e. [''mixRatio'' \<mapsto> UNum (Fin a)]) cb s = Inr s'"
      by (simp add: onUpdate_def)
    from update_effect_fields [OF u] has_resolution_add [of s' s] show ?thesis by simp
  next
    case (R_Wipe g an d)
    with assms have u: "update_effect (\<lambda>e. [''amount'' \<mapsto> UNum (Fin a),
                  ''aspect'' \<mapsto> UNum (js_div (Fin (width s)) (Fin (height s)))]) cb s = Inr s'"
      by (simp add: onUpdate_def)
    from update_effect_fields [OF u] has_resolution_add [of s' s] show ?thesis by simp
  next
    case (R_Slide n i m d)
    with assms have u: "update_effect (\<lambda>e. [''prevAmount'' \<mapsto> getUniforms e ''amount'',
                  ''amount'' \<mapsto> UNum (Fin a)]) cb s = Inr s'"
      by (simp add: onUpdate_def)
    from update_effect_fields [OF u] has_resolution_add [of s' s] show ?thesis by simp
  next
    case (R_Blur i m)
    with assms have u: "update_effect (\<lambda>e. [''prevAmount'' \<mapsto> getUniforms e ''amount'',
                  ''amount'' \<mapsto> UNum (Fin a)]) cb s = Inr s'"
      by (simp add: onUpdate_def)
    from update_effect_fields [OF u] has_resolution_add [of s' s] show ?thesis by simp
  next
    case (R_Glitch sd)
    with assms obtain e ad where e: "transitionEffect s = Some e"
      and r: "getUniforms e ''resolution'' = UVector2 ad"
      and u: "update_effect (\<lambda>e. [''amount'' \<mapsto> UNum (Fin a)]) cb
                      (s\<lparr>vectors := (vectors s)(ad := (width s, height s))\<rparr>) = Inr s'"
      by (auto simp add: onUpdate_def split: option.splits uvalue.splits)
    let ?s = "s\<lparr>vectors := (vectors s)(ad := (width s, height s))\<rparr>"
    have h: "has_resolution s \<longrightarrow> has_resolution ?s" "the_uniforms ?s = the_uniforms s"
      by (simp_all add: has_resolution_def the_uniforms_def)
    from update_effect_fields [OF u] has_resolution_add [of s' ?s] h show ?thesis by simp
  qed
  then show "replaced_tweens s' = replaced_tweens s" "transition_tween s' = transition_tween s"
    "enabled s' = enabled s" "width s' = width s" "height s' = height s"
    "prevBackground s' = prevBackground s" "effects_made s' = effects_made s"
    "transitionEffect s \<noteq> None \<longrightarrow> transitionEffect s' \<noteq> None"
    "has_resolution s \<longrightarrow> has_resolution s'"
    by blast+
qed

lemma base_onComplete_fields:
  assumes "base_onComplete cb s = Inr s'"
  shows "\<not> enabled s'" "transitionEffect s' = transitionEffect s"
    "replaced_tweens s' = replaced_tweens s" "transition_tween s' = transition_tween s"
    "width s' = width s" "height s' = height s" "vectors s' = vectors s"
    "effects_made s' = effects_made s"
    "material_map (prevBackground s) \<noteq> None"
    "prevBackground s' = (case cb_background cb of Some b \<Rightarrow> b
        | None \<Rightarrow> new_Background (Synthesized (blanks_made s)) None (width s) (height s))"
  using onTransitionEnd_fields [of "cb_background cb" "user ''onComplete'' cb s" s'] assms
  by (simp_all add: base_onComplete_def split: option.splits)

text \<open>What an update of a playing tween with callbacks does at or after its start time.\<close>

lemma Tween_update_due:
  assumes "isPlaying tw" "tw_callbacks tw = Some cb" "startTime tw \<le> time"
  shows "Tween_update time tw s =
     then_do (onUpdate cb (amount_at tw time) (if onStartCallbackFired tw then s else onStart cb s))
       (\<lambda>s2. if elapsed_at tw time = 1
             then then_do (base_onComplete cb s2)
                    (\<lambda>s3. Inr (tw\<lparr>onStartCallbackFired := True, isPlaying := False\<rparr>, s3))
             else Inr (tw\<lparr>onStartCallbackFired := True\<rparr>, s2))"
  using assms by (simp add: Tween_update_def Let_def cong: if_cong)

lemma Tween_update_early:
  "\<not> isPlaying tw \<or> time < startTime tw \<Longrightarrow> Tween_update time tw s = Inr (tw, s)"
  by (auto simp add: Tween_update_def)

lemma TWEEN_update_current:
  "\<forall>tw \<in> set (replaced_tweens s). \<not> isPlaying tw \<Longrightarrow>
   TWEEN_update time s =
     then_do (Tween_update time (transition_tween s) s)
       (\<lambda>(tw, s2). Inr (s2\<lparr>replaced_tweens := replaced_tweens s, transition_tween := tw\<rparr>))"
  by (simp add: TWEEN_update_def update_tweens_idle then_do_def)


lemma has_resolution_cong:
  "transitionEffect s' = transitionEffect s \<Longrightarrow> has_resolution s' = has_resolution s"
  by (simp add: has_resolution_def the_uniforms_def)

text \<open>The cases of an update of the current tween that returns.\<close>

lemma TWEEN_update_cases:
  assumes inv: "pass_inv s" and up: "TWEEN_update time s = Inr s'"
  obtains
    (early) "\<not> isPlaying (transition_tween s) \<or> time < startTime (transition_tween s)" "s' = s"
  | (running) cb s2 where
      "isPlaying (transition_tween s)" "startTime (transition_tween s) \<le> time"
      "tw_callbacks (transition_tween s) = Some cb"
      "onUpdate cb (amount_at (transition_tween s) time)
         (if onStartCallbackFired (transition_tween s) then s else onStart cb s) = Inr s2"
      "elapsed_at (transition_tween s) time \<noteq> 1"
      "s' = s2\<lparr>replaced_tweens := replaced_tweens s,
               transition_tween := (transition_tween s)\<lparr>onStartCallbackFired := True\<rparr>\<rparr>"
  | (complete) cb s2 s3 where
      "isPlaying (transition_tween s)" "startTime (transition_tween s) \<le> time"
      "tw_callbacks (transition_tween s) = Some cb"
      "onUpdate cb (amount_at (transition_tween s) time)
         (if onStartCallbackFired (transition_tween s) then s else onStart cb s) = Inr s2"
      "elapsed_at (transition_tween s) time = 1"
      "base_onComplete cb s2 = Inr s3"
      "s' = s3\<lparr>replaced_tweens := replaced_tweens s,
               transition_tween :=
                 (transition_tween s)\<lparr>onStartCallbackFired := True, isPlaying := False\<rparr>\<rparr>"
proof -
  let ?tw = "transition_tween s"
  have idle: "\<forall>tw \<in> set (replaced_tweens s). \<not> isPlaying tw"
    using inv by (simp add: pass_inv_def)
  note cur = TWEEN_update_current [OF idle, of time]
  show thesis
  proof (cases "\<not> isPlaying ?tw \<or> time < startTime ?tw")
    case True
    then have "Tween_update time ?tw s = Inr (?tw, s)" by (rule Tween_update_early)
    with cur up have "s' = s" by (simp add: then_do_def)
    with True show thesis by (rule early)
  next
    case False
    then have p: "isPlaying ?tw" and d: "startTime ?tw \<le> time" by simp_all
    from inv p obtain cb where cb: "tw_callbacks ?tw = Some cb"
      by (auto simp add: pass_inv_def current_kind_def)
    let ?s1 = "if onStartCallbackFired ?tw then s else onStart cb s"
    note due = Tween_update_due [OF p cb d, of s]
    from up cur due obtain s2 where s2: "onUpdate cb (amount_at ?tw time) ?s1 = Inr s2"
      by (cases "onUpdate cb (amount_at ?tw time) ?s1") (simp_all add: then_do_def)
    show thesis
    proof (cases "elapsed_at ?tw time = 1")
      case False
      with up cur due s2 have "s' = s2\<lparr>replaced_tweens := replaced_tweens s,
               transition_tween := ?tw\<lparr>onStartCallbackFired := True\<rparr>\<rparr>"
        by (simp add: then_do_def)
      with p d cb s2 False show thesis by (rule running)
    next
      case True
      with up cur due s2 obtain s3 where s3: "base_onComplete cb s2 = Inr s3"
        by (cases "base_onComplete cb s2") (simp_all add: then_do_def)
      with up cur due s2 True have "s' = s3\<lparr>replaced_tweens := replaced_tweens s,
               transition_tween := ?tw\<lparr>onStartCallbackFired := True, isPlaying := False\<rparr>\<rparr>"
        by (simp add: then_do_def)
      with p d cb s2 True s3 show thesis by (rule complete)
    qed
  qed
qed

lemma pass_inv_TWEEN_update:
  assumes inv: "pass_inv s" and up: "TWEEN_update time s = Inr s'"
  shows "pass_inv s'"
  using inv up
proof (cases rule: TWEEN_update_cases)
  case early
  with inv show ?thesis by simp
next
  case (running cb s2)
  let ?tw = "transition_tween s"
  let ?s1 = "if onStartCallbackFired ?tw then s else onStart cb s"
  note u = onUpdate_fields [OF running(4)]
  have k: "current_kind s = Some (cb_resolved cb)"
    using running(3) by (simp add: current_kind_def)
  have e1: "transitionEffect ?s1 \<noteq> None"
    using inv running(1) onStart_fields(7) [of cb s] by (auto simp add: pass_inv_def started_def)
  have g1: "is_glitch (current_kind s) \<longrightarrow> has_resolution ?s1"
    using inv running(1) k by (simp add: pass_inv_def started_def onStart_fields)
  have en1: "cb_resolved cb \<noteq> R_None \<longrightarrow> enabled ?s1"
    using inv running(1) k by (simp add: pass_inv_def started_def onStart_fields)
  have idle: "\<forall>tw \<in> set (replaced_tweens s). \<not> isPlaying tw"
    using inv by (simp add: pass_inv_def)
  have hr: "has_resolution s' = has_resolution s2"
    by (rule has_resolution_cong) (simp add: running(6))
  show ?thesis
    using idle inv running(1) k e1 g1 en1 u(3,8,9) hr
    by (simp add: pass_inv_def started_def current_kind_def running(6) running(3))
next
  case (complete cb s2 s3)
  note c = base_onComplete_fields [OF complete(6)]
  have idle: "\<forall>tw \<in> set (replaced_tweens s). \<not> isPlaying tw"
    using inv by (simp add: pass_inv_def)
  show ?thesis
    using idle c(1) by (simp add: pass_inv_def started_def complete(7))
qed

lemma reachable_pass_inv: "reachable s \<Longrightarrow> pass_inv s"
proof (induction rule: reachable.induct)
  case (reachable_new background w h)
  show ?case by (rule pass_inv_new)
next
  case (reachable_step s c s')
  then show ?case
    by (cases c)
       (auto intro: pass_inv_transition pass_inv_TWEEN_update pass_inv_render pass_inv_setSize)
qed

lemma run_reachable: "reachable s \<Longrightarrow> run cs s = Inr s' \<Longrightarrow> reachable s'"
proof (induction cs arbitrary: s)
  case Nil
  then show ?case by simp
next
  case (Cons c cs)
  from Cons.prems(2) obtain s1 where 1: "step c s = Inr s1" and 2: "run cs s1 = Inr s'"
    by (cases "step c s") (simp_all add: then_do_def)
  from Cons.prems(1) 1 have "reachable s1" by (rule reachable_step)
  then show ?case using 2 by (rule Cons.IH)
qed

lemma the_uniforms_cong:
  "transitionEffect s' = transitionEffect s \<Longrightarrow> the_uniforms s' = the_uniforms s"
  by (simp add: the_uniforms_def)

lemma onUpdate_Wipe:
  assumes "cb_resolved cb = R_Wipe g an d" "onUpdate cb a s = Inr s'"
  shows "the_uniforms s' = (the_uniforms s)(''amount'' \<mapsto> UNum (Fin a),
           ''aspect'' \<mapsto> UNum (js_div (Fin (width s)) (Fin (height s))))"
proof -
  from assms have u: "update_effect (\<lambda>e. [''amount'' \<mapsto> UNum (Fin a),
                  ''aspect'' \<mapsto> UNum (js_div (Fin (width s)) (Fin (height s)))]) cb s = Inr s'"
    by (simp add: onUpdate_def)
  from update_effect_fields(10) [OF u] show ?thesis by simp
qed

lemma getUniforms_the_uniforms:
  "transitionEffect s = Some e \<Longrightarrow> the_uniforms s name = Some v \<Longrightarrow> getUniforms e name = v"
  by (simp add: getUniforms_def the_uniforms_def)

lemma onUpdate_prevAmount:
  assumes "cb_resolved cb = R_Slide n i m d \<or> cb_resolved cb = R_Blur i m"
    "onUpdate cb a s = Inr s'"
  shows "\<exists>e. transitionEffect s = Some e \<and>
           the_uniforms s' = (the_uniforms s)(''prevAmount'' \<mapsto> getUniforms e ''amount'',
             ''amount'' \<mapsto> UNum (Fin a))"
proof -
  from assms have u: "update_effect (\<lambda>e. [''prevAmount'' \<mapsto> getUniforms e ''amount'',
                  ''amount'' \<mapsto> UNum (Fin a)]) cb s = Inr s'"
    by (auto simp add: onUpdate_def)
  from u obtain e where e: "transitionEffect s = Some e"
    by (rule update_effect_Inr)
  from update_effect_fields(10) [OF u] e show ?thesis by simp
qed

lemma onUpdate_Glitch:
  assumes "cb_resolved cb = R_Glitch sd" "onUpdate cb a s = Inr s'"
  shows "\<exists>ad. the_uniforms s ''resolution'' = Some (UVector2 ad) \<and>
           the_uniforms s' = (the_uniforms s)(''amount'' \<mapsto> UNum (Fin a)) \<and>
           vectors s' = (vectors s)(ad := (width s, height s))"
proof -
  from assms obtain e ad where e: "transitionEffect s = Some e"
      and r: "getUniforms e ''resolution'' = UVector2 ad"
      and u: "update_effect (\<lambda>e. [''amount'' \<mapsto> UNum (Fin a)]) cb
                      (s\<lparr>vectors := (vectors s)(ad := (width s, height s))\<rparr>) = Inr s'"
    by (auto simp add: onUpdate_def split: option.splits uvalue.splits)
  from r have "uniforms e ''resolution'' = Some (UVector2 ad)"
    by (simp add: getUniforms_def split: option.splits)
  with e have 1: "the_uniforms s ''resolution'' = Some (UVector2 ad)"
    by (simp add: the_uniforms_def)
  from update_effect_fields(6,10) [OF u]
  have 2: "the_uniforms s' = (the_uniforms s)(''amount'' \<mapsto> UNum (Fin a))"
    and 3: "vectors s' = (vectors s)(ad := (width s, height s))"
    by (simp_all add: the_uniforms_def)
  from 1 2 3 show ?thesis by blast
qed

text \<open>The update callback returns once there is an effect (with a vector for a glitch).\<close>

lemma onUpdate_returns:
  assumes "transitionEffect s \<noteq> None" "is_glitch (Some (cb_resolved cb)) \<longrightarrow> has_resolution s"
  shows "\<exists>s'. onUpdate cb a s = Inr s'"
proof -
  from assms(1) obtain e where e: "transitionEffect s = Some e" by auto
  show ?thesis
  proof (cases "cb_resolved cb")
    case (R_Glitch sd)
    with assms(2) e obtain ad where "uniforms e ''resolution'' = Some (UVector2 ad)"
      by (auto simp add: is_glitch_def has_resolution_def the_uniforms_def
          split: option.splits uvalue.splits)
    with R_Glitch e show ?thesis
      by (simp add: onUpdate_def update_effect_def getUniforms_def)
  qed (simp_all add: onUpdate_def update_effect_def e)
qed

lemma base_onComplete_returns:
  "material_map (prevBackground s) \<noteq> None \<Longrightarrow> \<exists>s'. base_onComplete cb s = Inr s'"
  by (auto simp add: base_onComplete_def onTransitionEnd_def then_do_def Background_dispose_def
      Let_def user_def emit_def)


lemma pass_inv_started_effect:
  "pass_inv s \<Longrightarrow> isPlaying (transition_tween s) \<Longrightarrow> tw_callbacks (transition_tween s) = Some cb \<Longrightarrow>
   transitionEffect (if onStartCallbackFired (transition_tween s) then s else onStart cb s) \<noteq> None \<and>
   (is_glitch (Some (cb_resolved cb)) \<longrightarrow>
      has_resolution (if onStartCallbackFired (transition_tween s) then s else onStart cb s))"
  using onStart_fields(7,8) [of cb s]
  by (auto simp add: pass_inv_def started_def current_kind_def)

text \<open>
  An update of the current tween at or after its start time returns, unless it completes
  the transition while the previous unit is blank.
\<close>

lemma TWEEN_update_returns:
  assumes inv: "pass_inv s" and p: "isPlaying (transition_tween s)"
    and d: "startTime (transition_tween s) \<le> time"
    and ok: "material_map (prevBackground s) \<noteq> None \<or> elapsed_at (transition_tween s) time \<noteq> 1"
  shows "\<exists>s'. TWEEN_update time s = Inr s'"
proof -
  let ?tw = "transition_tween s"
  from inv p obtain cb where cb: "tw_callbacks ?tw = Some cb"
    by (auto simp add: pass_inv_def current_kind_def)
  let ?s1 = "if onStartCallbackFired ?tw then s else onStart cb s"
  have idle: "\<forall>tw \<in> set (replaced_tweens s). \<not> isPlaying tw"
    using inv by (simp add: pass_inv_def)
  from pass_inv_started_effect [OF inv p cb] onUpdate_returns [of ?s1 cb "amount_at ?tw time"]
  obtain s2 where s2: "onUpdate cb (amount_at ?tw time) ?s1 = Inr s2" by blast
  have prev: "prevBackground s2 = prevBackground s"
    using onUpdate_fields(6) [OF s2] by (simp add: onStart_fields split: if_splits)
  show ?thesis
  proof (cases "elapsed_at ?tw time = 1")
    case False
    with s2 show ?thesis
      by (simp add: TWEEN_update_current [OF idle] Tween_update_due [OF p cb d] then_do_def)
  next
    case True
    with ok prev have "material_map (prevBackground s2) \<noteq> None" by simp
    then obtain s3 where "base_onComplete cb s2 = Inr s3"
      using base_onComplete_returns by blast
    with s2 True show ?thesis
      by (simp add: TWEEN_update_current [OF idle] Tween_update_due [OF p cb d] then_do_def)
  qed
qed

lemma setSize_fields [simp]:
  "width (setSize w h s) = w" "height (setSize w h s) = h"
  "transition_tween (setSize w h s) = transition_tween s"
  "replaced_tweens (setSize w h s) = replaced_tweens s"
  "transitionEffect (setSize w h s) = transitionEffect s"
  "prevBackground (setSize w h s) = prevBackground s"
  "enabled (setSize w h s) = enabled s"
  "vectors (setSize w h s) = vectors s"
  by (simp_all add: setSize_def emit_def)


text \<open>What an update at or after the start time writes, by kind.\<close>

lemma TWEEN_update_due_cases:
  assumes inv: "pass_inv s" and p: "isPlaying (transition_tween s)"
    and d: "startTime (transition_tween s) \<le> time" and up: "TWEEN_update time s = Inr s'"
  obtains cb s2 where "tw_callbacks (transition_tween s) = Some cb"
    "onUpdate cb (amount_at (transition_tween s) time)
         (if onStartCallbackFired (transition_tween s) then s else onStart cb s) = Inr s2"
    "the_uniforms s' = the_uniforms s2" "vectors s' = vectors s2"
    "isPlaying (transition_tween s') \<longrightarrow>
       transition_tween s' = (transition_tween s)\<lparr>onStartCallbackFired := True\<rparr>"
    "transitionEffect s' = transitionEffect s2"
  using inv up
proof (cases rule: TWEEN_update_cases)
  case early
  with p d show ?thesis by simp
next
  case (running cb s2)
  have "the_uniforms s' = the_uniforms s2" "vectors s' = vectors s2"
    "isPlaying (transition_tween s') \<longrightarrow>
       transition_tween s' = (transition_tween s)\<lparr>onStartCallbackFired := True\<rparr>"
    "transitionEffect s' = transitionEffect s2"
    by (simp_all add: running(6) the_uniforms_def)
  with running(3,4) show ?thesis by (rule that)
next
  case (complete cb s2 s3)
  from base_onComplete_fields(2,7) [OF complete(6)]
  have "the_uniforms s' = the_uniforms s2" "vectors s' = vectors s2"
    "isPlaying (transition_tween s') \<longrightarrow>
       transition_tween s' = (transition_tween s)\<lparr>onStartCallbackFired := True\<rparr>"
    "transitionEffect s' = transitionEffect s2"
    by (simp_all add: complete(7) the_uniforms_def)
  with complete(3,4) show ?thesis by (rule that)
qed

lemma update_live_size:
  assumes inv: "pass_inv s" and p: "isPlaying (transition_tween s)"
    and d: "startTime (transition_tween s) \<le> time" and up: "TWEEN_update time s = Inr s'"
  shows "(\<forall>g a dir. current_kind s = Some (R_Wipe g a dir) \<longrightarrow>
            the_uniforms s' ''aspect'' = Some (UNum (js_div (Fin (width s)) (Fin (height s))))) \<and>
         (\<forall>sd. current_kind s = Some (R_Glitch sd) \<longrightarrow>
            (\<exists>ad. the_uniforms s' ''resolution'' = Some (UVector2 ad) \<and>
                  vectors s' ad = (width s, height s)))"
  using inv p d up
proof (cases rule: TWEEN_update_due_cases)
  case (1 cb s2)
  let ?s1 = "if onStartCallbackFired (transition_tween s) then s else onStart cb s"
  have wh: "width ?s1 = width s" "height ?s1 = height s" by (simp_all add: onStart_fields)
  have k: "current_kind s = Some (cb_resolved cb)" using 1(1) by (simp add: current_kind_def)
  show ?thesis
  proof (intro conjI allI impI)
    fix g a dir assume "current_kind s = Some (R_Wipe g a dir)"
    with k have "cb_resolved cb = R_Wipe g a dir" by simp
    from onUpdate_Wipe [OF this 1(2)] wh 1(3)
    show "the_uniforms s' ''aspect'' = Some (UNum (js_div (Fin (width s)) (Fin (height s))))"
      by simp
  next
    fix sd assume "current_kind s = Some (R_Glitch sd)"
    with k have "cb_resolved cb = R_Glitch sd" by simp
    from onUpdate_Glitch [OF this 1(2)] wh 1(3,4)
    show "\<exists>ad. the_uniforms s' ''resolution'' = Some (UVector2 ad) \<and>
            vectors s' ad = (width s, height s)"
      by auto
  qed
qed

lemma amount_at_fired [simp]:
  "amount_at (tw\<lparr>onStartCallbackFired := b\<rparr>) time = amount_at tw time"
  by (simp add: amount_at_def elapsed_at_def)

lemma amount_at_eased:
  "valuesStart tw = 0 \<Longrightarrow> valuesEnd tw = 1 \<Longrightarrow>
   amount_at tw time = tw_easingFunction tw (elapsed_at tw time)"
  by (simp add: amount_at_def)

text \<open>One update of a slide or a blur: the old amount becomes the previous amount.\<close>

lemma update_prevAmount:
  assumes inv: "pass_inv s" and p: "isPlaying (transition_tween s)"
    and k: "current_kind s = Some (R_Slide n i m dir) \<or> current_kind s = Some (R_Blur i m)"
    and d: "startTime (transition_tween s) \<le> time" and up: "TWEEN_update time s = Inr s'"
  shows "the_uniforms s' ''amount'' = Some (UNum (Fin (amount_at (transition_tween s) time)))"
    and "onStartCallbackFired (transition_tween s) \<Longrightarrow> the_uniforms s ''amount'' = Some v \<Longrightarrow>
         the_uniforms s' ''prevAmount'' = Some v"
    and "isPlaying (transition_tween s') \<Longrightarrow>
         transition_tween s' = (transition_tween s)\<lparr>onStartCallbackFired := True\<rparr>"
    and "current_kind s' = current_kind s"
proof -
  from inv p d up obtain cb s2 where cb: "tw_callbacks (transition_tween s) = Some cb"
    and s2: "onUpdate cb (amount_at (transition_tween s) time)
         (if onStartCallbackFired (transition_tween s) then s else onStart cb s) = Inr s2"
    and u: "the_uniforms s' = the_uniforms s2"
    and tw: "isPlaying (transition_tween s') \<longrightarrow>
       transition_tween s' = (transition_tween s)\<lparr>onStartCallbackFired := True\<rparr>"
    by (rule TWEEN_update_due_cases)
  let ?s1 = "if onStartCallbackFired (transition_tween s) then s else onStart cb s"
  from k cb have k': "cb_resolved cb = R_Slide n i m dir \<or> cb_resolved cb = R_Blur i m"
    by (simp add: current_kind_def)
  from onUpdate_prevAmount [OF k' s2] obtain e where e: "transitionEffect ?s1 = Some e"
    and w: "the_uniforms s2 = (the_uniforms ?s1)(''prevAmount'' \<mapsto> getUniforms e ''amount'',
             ''amount'' \<mapsto> UNum (Fin (amount_at (transition_tween s) time)))"
    by blast
  from u w show "the_uniforms s' ''amount'' = Some (UNum (Fin (amount_at (transition_tween s) time)))"
    by simp
  from tw show "isPlaying (transition_tween s') \<Longrightarrow>
         transition_tween s' = (transition_tween s)\<lparr>onStartCallbackFired := True\<rparr>" by simp
  {
    assume f: "onStartCallbackFired (transition_tween s)" and a: "the_uniforms s ''amount'' = Some v"
    from f e have "transitionEffect s = Some e" by simp
    then have "getUniforms e ''amount'' = v" using a by (rule getUniforms_the_uniforms)
    with u w show "the_uniforms s' ''prevAmount'' = Some v" by simp
  }
  from inv up show "current_kind s' = current_kind s"
    by (cases rule: TWEEN_update_cases) (simp_all add: current_kind_def)
qed

text \<open>What a call of \<open>transition\<close> that returns leaves behind.\<close>

lemma transition_fields:
  assumes inv: "pass_inv s" and tr: "transition background kind config now rnd s = Inr s'"
  shows "transition_tween s' = start_Tween (getTransitionConfig background kind config rnd) now"
    and "replaced_tweens s' = replaced_tweens s @ [(transition_tween s)\<lparr>isPlaying := False\<rparr>]"
    and "\<not> enabled s'"
    and "transitionEffect s' = transitionEffect s"
    and "effects_made s' = effects_made s"
    and "width s' = width s" and "height s' = height s"
proof -
  let ?c = "getTransitionConfig background kind config rnd"
  from tr obtain tw s1 where st: "Tween_stop (transition_tween s) s = Inr (tw, s1)"
    and s': "s' = (base_onInit (cfg_callbacks ?c) s1)\<lparr>replaced_tweens :=
                     replaced_tweens (base_onInit (cfg_callbacks ?c) s1) @ [tw],
                   transition_tween := start_Tween ?c now\<rparr>"
    by (auto simp add: transition_def then_do_def Let_def split: sum.splits)
  note f = Tween_stop_fields [OF st]
  from inv tr have "pass_inv s'" by (rule pass_inv_transition)
  then show "\<not> enabled s'"
    by (auto simp add: pass_inv_def started_def s' start_Tween_def)
  show "transition_tween s' = start_Tween ?c now" by (simp add: s')
  show "replaced_tweens s' = replaced_tweens s @ [(transition_tween s)\<lparr>isPlaying := False\<rparr>]"
    using f(2,3) by (simp add: s' base_onInit_def)
  show "transitionEffect s' = transitionEffect s" using f(5) by (simp add: s' base_onInit_def)
  show "effects_made s' = effects_made s" using f(6) by (simp add: s' base_onInit_def)
  show "width s' = width s" "height s' = height s"
    using f(7,8) by (simp_all add: s' base_onInit_def)
qed


section \<open>Effects, renders and disposals\<close>

lemma renders_follow_disposals_quiet:
  assumes "renders_follow_disposals tr" "\<forall>ev \<in> set evs. \<not> is_render ev"
  shows "renders_follow_disposals (tr @ evs)"
  unfolding renders_follow_disposals_def
proof (intro allI impI)
  fix k assume k: "k < length (tr @ evs)"
  show "case (tr @ evs) ! k of
          EffectRender i wb fb rb \<Rightarrow> \<forall>j < i. EffectDispose j \<in> set (take k (tr @ evs))
        | _ \<Rightarrow> True"
  proof (cases "k < length tr")
    case True
    with assms(1) have "case tr ! k of
          EffectRender i wb fb rb \<Rightarrow> \<forall>j < i. EffectDispose j \<in> set (take k tr)
        | _ \<Rightarrow> True"
      by (simp add: renders_follow_disposals_def)
    with True show ?thesis
      by (cases "tr ! k") (simp_all add: nth_append)
  next
    case False
    with k have "evs ! (k - length tr) \<in> set evs" by simp
    with assms(2) have "\<not> is_render (evs ! (k - length tr))" by blast
    with False show ?thesis
      by (cases "evs ! (k - length tr)") (simp_all add: nth_append)
  qed
qed

lemma renders_follow_disposals_render:
  assumes "renders_follow_disposals tr" "\<forall>j < i. EffectDispose j \<in> set tr"
  shows "renders_follow_disposals (tr @ [BackgroundRender r t, EffectRender i wb fb rb])"
  unfolding renders_follow_disposals_def
proof (intro allI impI)
  fix k assume k: "k < length (tr @ [BackgroundRender r t, EffectRender i wb fb rb])"
  let ?tr = "tr @ [BackgroundRender r t, EffectRender i wb fb rb]"
  consider "k < length tr" | "k = length tr" | "k = Suc (length tr)" using k by fastforce
  then show "case ?tr ! k of
          EffectRender i wb fb rb \<Rightarrow> \<forall>j < i. EffectDispose j \<in> set (take k ?tr)
        | _ \<Rightarrow> True"
  proof cases
    case 1
    with assms(1) have "case tr ! k of
          EffectRender i wb fb rb \<Rightarrow> \<forall>j < i. EffectDispose j \<in> set (take k tr)
        | _ \<Rightarrow> True"
      by (simp add: renders_follow_disposals_def)
    with 1 show ?thesis
      by (cases "tr ! k") (simp_all add: nth_append)
  next
    case 2
    then show ?thesis by (simp add: nth_append)
  next
    case 3
    with assms(2) show ?thesis by (simp add: nth_append)
  qed
qed

lemma quietly_refl [simp]: "quietly s s"
  by (simp add: quietly_def)

lemma quietly_trans: "quietly s s1 \<Longrightarrow> quietly s1 s2 \<Longrightarrow> quietly s s2"
  unfolding quietly_def
  by (elim conjE exE, intro conjI, rule_tac x = "evs @ evsa" in exI) auto

lemma quietly_emit: "\<forall>ev \<in> set evs. \<not> is_render ev \<Longrightarrow> quietly s (emit evs s)"
  by (simp add: quietly_def emit_def)

lemma quietly_cong:
  "trace s' = trace s \<Longrightarrow> effects_made s' = effects_made s \<Longrightarrow>
   transitionEffect s' = transitionEffect s \<Longrightarrow> quietly s s'"
  by (simp add: quietly_def)

lemma effects_inv_quietly:
  assumes "effects_inv s" "quietly s s'"
  shows "effects_inv s'"
proof -
  from assms(2) obtain evs where t: "trace s' = trace s @ evs"
    and q: "\<forall>ev \<in> set evs. \<not> is_render ev"
    and m: "effects_made s' = effects_made s"
    and e: "map_option effect_id (transitionEffect s') = map_option effect_id (transitionEffect s)"
    by (auto simp add: quietly_def)
  have 1: "\<forall>e. transitionEffect s' = Some e \<longrightarrow> effect_id e < effects_made s'"
  proof (intro allI impI)
    fix e' assume "transitionEffect s' = Some e'"
    with e obtain e0 where "transitionEffect s = Some e0" "effect_id e0 = effect_id e'"
      by (cases "transitionEffect s") auto
    with assms(1) m show "effect_id e' < effects_made s'" by (auto simp add: effects_inv_def)
  qed
  have 2: "\<forall>j < effects_made s'.
        EffectDispose j \<in> set (trace s') \<or> map_option effect_id (transitionEffect s') = Some j"
    using assms(1) t m e by (auto simp add: effects_inv_def)
  have 3: "renders_follow_disposals (trace s')"
    using assms(1) q by (simp add: t effects_inv_def renders_follow_disposals_quiet)
  from 1 2 3 show ?thesis by (simp add: effects_inv_def)
qed


lemma quietly_user: "quietly s (user n cb s)"
  by (simp add: user_def quietly_emit)

lemma quietly_update_effect:
  assumes "update_effect partial cb s = Inr s'"
  shows "quietly s s'"
  using assms
proof (rule update_effect_Inr)
  fix e assume e: "transitionEffect s = Some e"
    and s': "s' = base_onUpdate cb (s\<lparr>transitionEffect := Some (updateUniforms (partial e) e)\<rparr>)"
  show ?thesis
    by (simp add: s' e quietly_def base_onUpdate_def user_def emit_def updateUniforms_def)
qed

lemma quietly_onUpdate:
  assumes "onUpdate cb a s = Inr s'"
  shows "quietly s s'"
proof (cases "cb_resolved cb")
  case R_None
  with assms show ?thesis by (auto simp add: onUpdate_def base_onUpdate_def quietly_user)
next
  case R_Blend
  with assms show ?thesis by (auto simp add: onUpdate_def intro: quietly_update_effect)
next
  case (R_Wipe g an d)
  with assms show ?thesis by (auto simp add: onUpdate_def intro: quietly_update_effect)
next
  case (R_Slide n i m d)
  with assms show ?thesis by (auto simp add: onUpdate_def intro: quietly_update_effect)
next
  case (R_Blur i m)
  with assms show ?thesis by (auto simp add: onUpdate_def intro: quietly_update_effect)
next
  case (R_Glitch sd)
  with assms obtain ad where
    u: "update_effect (\<lambda>e. [''amount'' \<mapsto> UNum (Fin a)]) cb
                      (s\<lparr>vectors := (vectors s)(ad := (width s, height s))\<rparr>) = Inr s'"
    by (auto simp add: onUpdate_def split: option.splits uvalue.splits)
  have "quietly s (s\<lparr>vectors := (vectors s)(ad := (width s, height s))\<rparr>)"
    by (rule quietly_cong) simp_all
  with quietly_update_effect [OF u] show ?thesis by (blast intro: quietly_trans)
qed

lemma quietly_onTransitionEnd:
  assumes "onTransitionEnd background s = Inr s'"
  shows "quietly s s'"
  using onTransitionEnd_fields(2,8,9) [OF assms] by (simp add: quietly_def)

lemma quietly_base_onComplete: "base_onComplete cb s = Inr s' \<Longrightarrow> quietly s s'"
  unfolding base_onComplete_def
  by (blast intro: quietly_trans quietly_user quietly_onTransitionEnd)

lemma quietly_base_onStop: "base_onStop cb s = Inr s' \<Longrightarrow> quietly s s'"
  unfolding base_onStop_def
  by (blast intro: quietly_trans quietly_user quietly_onTransitionEnd)

lemma Tween_stop_Inr:
  assumes "Tween_stop tw s = Inr (tw', s1)"
  obtains (idle) "\<not> isPlaying tw" "tw' = tw" "s1 = s"
    | (bare) "isPlaying tw" "tw_callbacks tw = None" "tw' = tw\<lparr>isPlaying := False\<rparr>" "s1 = s"
    | (stop) cb where "isPlaying tw" "tw_callbacks tw = Some cb"
        "tw' = tw\<lparr>isPlaying := False\<rparr>" "base_onStop cb s = Inr s1"
  using assms
  by (auto simp add: Tween_stop_def Let_def then_do_def
      split: if_splits option.splits sum.splits)

lemma quietly_Tween_stop:
  assumes "Tween_stop tw s = Inr (tw', s1)"
  shows "quietly s s1"
  using assms
  by (cases rule: Tween_stop_Inr) (simp_all add: quietly_base_onStop)

lemma quietly_transition:
  assumes "transition background kind config now rnd s = Inr s'"
  shows "quietly s s'"
proof -
  let ?c = "getTransitionConfig background kind config rnd"
  from assms obtain tw s1 where st: "Tween_stop (transition_tween s) s = Inr (tw, s1)"
    and s': "s' = (base_onInit (cfg_callbacks ?c) s1)\<lparr>replaced_tweens :=
                     replaced_tweens (base_onInit (cfg_callbacks ?c) s1) @ [tw],
                   transition_tween := start_Tween ?c now\<rparr>"
    by (auto simp add: transition_def then_do_def Let_def split: sum.splits)
  have 1: "quietly s s1" using st by (rule quietly_Tween_stop)
  have 2: "quietly s1 (base_onInit (cfg_callbacks ?c) s1)"
    by (simp add: base_onInit_def quietly_user)
  have 3: "quietly (base_onInit (cfg_callbacks ?c) s1) s'"
    by (rule quietly_cong) (simp_all add: s')
  from 1 2 3 show ?thesis by (blast intro: quietly_trans)
qed

lemma quietly_setSize: "quietly s (setSize w h s)"
proof -
  have "quietly s (s\<lparr>width := w, height := h\<rparr>)" by (rule quietly_cong) simp_all
  moreover have "quietly (s\<lparr>width := w, height := h\<rparr>) (setSize w h s)"
    by (simp add: setSize_def quietly_emit)
  ultimately show ?thesis by (rule quietly_trans)
qed

text \<open>The start callback: the old effect is disposed, then the new one is constructed.\<close>

lemma onStart_trace:
  "\<exists>sh rest.
     trace (onStart cb s) =
       trace s @ (case transitionEffect s of None \<Rightarrow> [] | Some e \<Rightarrow> [EffectDispose (effect_id e)]) @
         [EffectConstruct (effects_made s) sh] @ rest \<and>
     (\<forall>ev \<in> set rest. \<not> is_render ev) \<and>
     map_option effect_id (transitionEffect (onStart cb s)) = Some (effects_made s)"
  by (cases "cb_resolved cb"; cases "transitionEffect s")
     (simp_all add: onStart_def setTransitionEffect_def emit_def base_onStart_def
        onTransitionStart_def user_def new_TransitionEffect_def Let_def)

lemma effects_inv_onStart:
  assumes "effects_inv s"
  shows "effects_inv (onStart cb s)"
proof -
  from onStart_trace [of cb s] obtain sh rest where
    t: "trace (onStart cb s) =
       trace s @ (case transitionEffect s of None \<Rightarrow> [] | Some e \<Rightarrow> [EffectDispose (effect_id e)]) @
         [EffectConstruct (effects_made s) sh] @ rest"
    and q: "\<forall>ev \<in> set rest. \<not> is_render ev"
    and e: "map_option effect_id (transitionEffect (onStart cb s)) = Some (effects_made s)"
    by blast
  let ?evs = "(case transitionEffect s of None \<Rightarrow> [] | Some e \<Rightarrow> [EffectDispose (effect_id e)]) @
         [EffectConstruct (effects_made s) sh] @ rest"
  have q': "\<forall>ev \<in> set ?evs. \<not> is_render ev"
    using q by (auto split: option.splits)
  have m: "effects_made (onStart cb s) = Suc (effects_made s)" by (rule onStart_fields(9))
  have 1: "\<forall>e. transitionEffect (onStart cb s) = Some e \<longrightarrow> effect_id e < effects_made (onStart cb s)"
    using e m by auto
  have 2: "\<forall>j < effects_made (onStart cb s).
        EffectDispose j \<in> set (trace (onStart cb s)) \<or>
        map_option effect_id (transitionEffect (onStart cb s)) = Some j"
  proof (intro allI impI)
    fix j assume "j < effects_made (onStart cb s)"
    with m have "j < effects_made s \<or> j = effects_made s" by auto
    then show "EffectDispose j \<in> set (trace (onStart cb s)) \<or>
        map_option effect_id (transitionEffect (onStart cb s)) = Some j"
    proof
      assume "j = effects_made s"
      with e show ?thesis by simp
    next
      assume "j < effects_made s"
      with assms have "EffectDispose j \<in> set (trace s) \<or>
          map_option effect_id (transitionEffect s) = Some j"
        by (simp add: effects_inv_def)
      then have "EffectDispose j \<in> set (trace (onStart cb s))"
        by (auto simp add: t split: option.splits)
      then show ?thesis ..
    qed
  qed
  have 3: "renders_follow_disposals (trace (onStart cb s))"
    using assms q' unfolding t effects_inv_def
    by (blast intro: renders_follow_disposals_quiet)
  from 1 2 3 show ?thesis by (simp add: effects_inv_def)
qed

text \<open>What a render that returns adds to the trace.\<close>

lemma render_cases:
  assumes "render wb rb s = Inr s'"
  obtains (idle) "\<not> isTransitioning s" "s' = s"
  | (drawn) e where "isTransitioning s" "transitionEffect s = Some e"
      "s' = emit [BackgroundRender (bg_ref (prevBackground s)) PassBuffer,
                  EffectRender (effect_id e) (if renderToScreen s then Screen else wb)
                    PassBuffer rb] s"
  using assms
  by (cases "isTransitioning s"; cases "transitionEffect s")
     (simp_all add: render_def emit_def Let_def)

lemma effects_inv_render:
  assumes inv: "effects_inv s" and r: "render wb rb s = Inr s'"
  shows "effects_inv s'"
  using r
proof (cases rule: render_cases)
  case idle
  with inv show ?thesis by simp
next
  case (drawn e)
  have d: "\<forall>j < effect_id e. EffectDispose j \<in> set (trace s)"
  proof (intro allI impI)
    fix j assume j: "j < effect_id e"
    from inv drawn(2) have "effect_id e < effects_made s" by (simp add: effects_inv_def)
    with j have "j < effects_made s" by simp
    with inv have "EffectDispose j \<in> set (trace s) \<or>
        map_option effect_id (transitionEffect s) = Some j"
      by (simp add: effects_inv_def)
    with j drawn(2) show "EffectDispose j \<in> set (trace s)" by auto
  qed
  have "renders_follow_disposals (trace s')"
    using inv d by (simp add: drawn(3) emit_def effects_inv_def renders_follow_disposals_render)
  with inv show ?thesis
    by (auto simp add: effects_inv_def drawn(3) emit_def)
qed

lemma effects_inv_TWEEN_update:
  assumes pinv: "pass_inv s" and inv: "effects_inv s" and up: "TWEEN_update time s = Inr s'"
  shows "effects_inv s'"
  using pinv up
proof (cases rule: TWEEN_update_cases)
  case early
  with inv show ?thesis by simp
next
  case (running cb s2)
  let ?s1 = "if onStartCallbackFired (transition_tween s) then s else onStart cb s"
  have "effects_inv ?s1" using inv by (simp add: effects_inv_onStart)
  then have "effects_inv s2" using quietly_onUpdate [OF running(4)] by (rule effects_inv_quietly)
  moreover have "quietly s2 s'" by (rule quietly_cong) (simp_all add: running(6))
  ultimately show ?thesis by (rule effects_inv_quietly)
next
  case (complete cb s2 s3)
  let ?s1 = "if onStartCallbackFired (transition_tween s) then s else onStart cb s"
  have "effects_inv ?s1" using inv by (simp add: effects_inv_onStart)
  then have "effects_inv s2" using quietly_onUpdate [OF complete(4)] by (rule effects_inv_quietly)
  then have "effects_inv s3"
    using quietly_base_onComplete [OF complete(6)] by (rule effects_inv_quietly)
  moreover have "quietly s3 s'" by (rule quietly_cong) (simp_all add: complete(7))
  ultimately show ?thesis by (rule effects_inv_quietly)
qed

lemma effects_inv_new: "effects_inv (new_TransitionPass background w h)"
  by (simp add: effects_inv_def new_TransitionPass_def renders_follow_disposals_def)

lemma reachable_effects_inv: "reachable s \<Longrightarrow> effects_inv s"
proof (induction rule: reachable.induct)
  case (reachable_new background w h)
  show ?case by (rule effects_inv_new)
next
  case (reachable_step s c s')
  then have p: "pass_inv s" by (simp add: reachable_pass_inv)
  from reachable_step show ?case
  proof (cases c)
    case (Transition bg kind config now rnd)
    with reachable_step show ?thesis
      by (auto intro: effects_inv_quietly quietly_transition)
  next
    case (Update time)
    with reachable_step p show ?thesis
      by (auto intro: effects_inv_TWEEN_update)
  next
    case (Render wb rb)
    with reachable_step show ?thesis
      by (auto intro: effects_inv_render)
  next
    case (SetSize w h)
    with reachable_step show ?thesis
      by (auto intro: effects_inv_quietly quietly_setSize)
  qed
qed

text \<open>The trace of a \<open>transition\<close> call that stops a playing animation.\<close>

lemma transition_trace:
  assumes inv: "pass_inv s" and p: "isPlaying (transition_tween s)"
    and tr: "transition background kind config now rnd s = Inr s'"
  shows "\<exists>cb. tw_callbacks (transition_tween s) = Some cb \<and>
           trace s' = trace s @
             [UserCallback ''onStop''
                [Some (bg_ref (prevBackground s)), map_option bg_ref (cb_background cb)],
              BackgroundDispose (bg_ref (prevBackground s)),
              UserCallback ''onInit''
                [Some (bg_ref (prevBackground s')), map_option bg_ref background]] \<and>
           prevBackground s' =
             (case cb_background cb of
                Some b \<Rightarrow> b
              | None \<Rightarrow> new_Background (Synthesized (blanks_made s)) None (width s) (height s))"
proof -
  let ?c = "getTransitionConfig background kind config rnd"
  from tr obtain tw s1 where st: "Tween_stop (transition_tween s) s = Inr (tw, s1)"
    and s': "s' = (base_onInit (cfg_callbacks ?c) s1)\<lparr>replaced_tweens :=
                     replaced_tweens (base_onInit (cfg_callbacks ?c) s1) @ [tw],
                   transition_tween := start_Tween ?c now\<rparr>"
    by (auto simp add: transition_def then_do_def Let_def split: sum.splits)
  from inv p obtain cb0 where cb0: "tw_callbacks (transition_tween s) = Some cb0"
    by (auto simp add: pass_inv_def current_kind_def)
  from st p cb0 have stop: "base_onStop cb0 s = Inr s1"
    by (cases rule: Tween_stop_Inr) simp_all
  then have e: "onTransitionEnd (cb_background cb0) (user ''onStop'' cb0 s) = Inr s1"
    by (simp add: base_onStop_def)
  note f = onTransitionEnd_fields(9,11) [OF e]
  have t: "trace s' = trace s1 @ [UserCallback ''onInit''
                [Some (bg_ref (prevBackground s1)), map_option bg_ref background]]"
    by (simp add: s' base_onInit_def getTransitionConfig_def)
  have pb: "prevBackground s' = prevBackground s1" by (simp add: s' base_onInit_def)
  from f t pb cb0 show ?thesis by (simp split: option.splits)
qed

text \<open>The first due update of a tween: its start callback replaces the effect.\<close>

lemma TWEEN_update_first:
  assumes inv: "pass_inv s" and p: "isPlaying (transition_tween s)"
    and nf: "\<not> onStartCallbackFired (transition_tween s)"
    and d: "startTime (transition_tween s) \<le> time" and up: "TWEEN_update time s = Inr s'"
  shows "\<exists>sh rest.
     trace s' =
       trace s @ (case transitionEffect s of None \<Rightarrow> [] | Some e \<Rightarrow> [EffectDispose (effect_id e)]) @
         [EffectConstruct (effects_made s) sh] @ rest \<and>
     (\<forall>ev \<in> set rest. \<not> is_render ev) \<and>
     map_option effect_id (transitionEffect s') = Some (effects_made s)"
proof -
  have "\<exists>cb. quietly (onStart cb s) s'"
    using inv up
  proof (cases rule: TWEEN_update_cases)
    case early
    with p d show ?thesis by simp
  next
    case (running cb s2)
    from running(4) nf
    have "onUpdate cb (amount_at (transition_tween s) time) (onStart cb s) = Inr s2" by simp
    then have "quietly (onStart cb s) s2" by (rule quietly_onUpdate)
    moreover have "quietly s2 s'" by (rule quietly_cong) (simp_all add: running(6))
    ultimately have "quietly (onStart cb s) s'" by (rule quietly_trans)
    then show ?thesis by blast
  next
    case (complete cb s2 s3)
    from complete(4) nf
    have "onUpdate cb (amount_at (transition_tween s) time) (onStart cb s) = Inr s2" by simp
    then have "quietly (onStart cb s) s2" by (rule quietly_onUpdate)
    moreover have "quietly s2 s3" using complete(6) by (rule quietly_base_onComplete)
    moreover have "quietly s3 s'" by (rule quietly_cong) (simp_all add: complete(7))
    ultimately have "quietly (onStart cb s) s'" by (blast intro: quietly_trans)
    then show ?thesis by blast
  qed
  then obtain cb where q: "quietly (onStart cb s) s'" by blast
  from q have "\<exists>evs. trace s' = trace (onStart cb s) @ evs \<and> (\<forall>ev \<in> set evs. \<not> is_render ev)"
    and e: "map_option effect_id (transitionEffect s') =
              map_option effect_id (transitionEffect (onStart cb s))"
    by (simp_all add: quietly_def)
  then obtain evs where t: "trace s' = trace (onStart cb s) @ evs"
    and qe: "\<forall>ev \<in> set evs. \<not> is_render ev"
    by (elim exE conjE)
  from onStart_trace [of cb s] obtain sh rest where
    t0: "trace (onStart cb s) =
       trace s @ (case transitionEffect s of None \<Rightarrow> [] | Some e \<Rightarrow> [EffectDispose (effect_id e)]) @
         [EffectConstruct (effects_made s) sh] @ rest"
    and q0: "\<forall>ev \<in> set rest. \<not> is_render ev"
    and e0: "map_option effect_id (transitionEffect (onStart cb s)) = Some (effects_made s)"
    by blast
  have "trace s' =
       trace s @ (case transitionEffect s of None \<Rightarrow> [] | Some e \<Rightarrow> [EffectDispose (effect_id e)]) @
         [EffectConstruct (effects_made s) sh] @ (rest @ evs)"
    by (simp add: t t0)
  moreover have "\<forall>ev \<in> set (rest @ evs). \<not> is_render ev" using q0 qe by auto
  moreover have "map_option effect_id (transitionEffect s') = Some (effects_made s)"
    using e e0 by simp
  ultimately show ?thesis by blast
qed

lemma render_idle: "\<not> isTransitioning s \<Longrightarrow> render writeBuffer readBuffer s = Inr s"
  by (simp add: render_def)

lemma render_new: "render writeBuffer readBuffer (new_TransitionPass background w h) =
    Inr (new_TransitionPass background w h)"
  by (simp add: render_def isTransitioning_def new_TransitionPass_def new_Tween_def)



lemma frame_call_step:
  assumes "frame_call c" "step c s = Inr s'"
  shows "transitionEffect s' = transitionEffect s \<and> transition_tween s' = transition_tween s"
proof (cases c)
  case (Render wb rb)
  with assms(2) obtain evs where "s' = emit evs s" using render_emits by fastforce
  then show ?thesis by (simp add: emit_def)
next
  case (SetSize w h)
  with assms(2) show ?thesis by auto
qed (use assms(1) in simp_all)

lemma frame_call_run:
  "\<forall>c \<in> set cs. frame_call c \<Longrightarrow> run cs s = Inr s' \<Longrightarrow>
   transitionEffect s' = transitionEffect s \<and> transition_tween s' = transition_tween s"
proof (induction cs arbitrary: s)
  case Nil
  then show ?case by simp
next
  case (Cons c cs)
  from Cons.prems(2) obtain s1 where 1: "step c s = Inr s1" and 2: "run cs s1 = Inr s'"
    by (cases "step c s") (simp_all add: then_do_def)
  from Cons.prems(1) have pc: "frame_call c" and pcs: "\<forall>c \<in> set cs. frame_call c" by simp_all
  from frame_call_step [OF pc 1] Cons.IH [OF pcs 2] show ?case by simp
qed



section \<open>The Scene Unit\<close>

text \<open>
  C8. A unit constructed with a source image has a backdrop plane of width 1 and height
  \<open>1 / (imageWidth / imageHeight)\<close>, so the plane keeps the image's aspect ratio (for an
  image with positive dimensions the height is that real number and width over height is
  the image's ratio). Without a texture, or with a texture that has no image, the aspect
  ratio is 1 and the plane is 1 by 1. The particle field is 1.1 times the plane's width and
  1.1 times its height: its width is 11/10, and its height is 11/10 without an image and
  \<open>(1 / (imageWidth / imageHeight)) * 11/10\<close> for an image with positive dimensions.
  Its depth bound is \<open>getMaxFullScreenDepthForPlane\<close> of the plane and the unit's
  camera at 0.
\<close>

theorem Background_sizing:
  "geometry_width (plane (new_Background r texture w h)) = Fin 1 \<and>
   (\<forall>t i. texture = Some t \<and> image t = Some i \<longrightarrow>
      geometry_height (plane (new_Background r texture w h)) =
        js_div (Fin 1) (js_div (Fin (real (image_width i))) (Fin (real (image_height i)))) \<and>
      (0 < image_width i \<and> 0 < image_height i \<longrightarrow>
         geometry_height (plane (new_Background r texture w h)) =
           Fin (1 / (real (image_width i) / real (image_height i))) \<and>
         js_div (geometry_width (plane (new_Background r texture w h)))
                (geometry_height (plane (new_Background r texture w h))) =
           Fin (real (image_width i) / real (image_height i)) \<and>
         particles_height (particles (new_Background r texture w h)) =
           Fin (1 / (real (image_width i) / real (image_height i)) * (11 / 10)))) \<and>
   ((texture = None \<or> (\<exists>t. texture = Some t \<and> image t = None)) \<longrightarrow>
      textureAspectRatio texture = Fin 1 \<and>
      geometry_height (plane (new_Background r texture w h)) = Fin 1 \<and>
      particles_height (particles (new_Background r texture w h)) = Fin (11 / 10)) \<and>
   particles_width (particles (new_Background r texture w h)) = Fin (11 / 10) \<and>
   particles_width (particles (new_Background r texture w h)) =
     js_mul (geometry_width (plane (new_Background r texture w h))) (Fin (11 / 10)) \<and>
   particles_height (particles (new_Background r texture w h)) =
     js_mul (geometry_height (plane (new_Background r texture w h))) (Fin (11 / 10)) \<and>
   particles_maxDepth (particles (new_Background r texture w h)) =
     getMaxFullScreenDepthForPlane (plane (new_Background r texture w h))
       (BackgroundCamera (plane (new_Background r texture w h)) w h) 0"
  by (auto simp add: new_Background_def textureAspectRatio_def Let_def)

theorem Background_sizing_witness:
  "image \<lparr>image = Some \<lparr>image_width = 4, image_height = 3\<rparr>\<rparr> =
     Some \<lparr>image_width = 4, image_height = 3\<rparr> \<and>
   0 < image_width \<lparr>image_width = 4, image_height = 3\<rparr> \<and>
   0 < image_height \<lparr>image_width = 4, image_height = 3\<rparr> \<and>
   geometry_width (plane (textured (Supplied 1))) = Fin 1 \<and>
   geometry_height (plane (textured (Supplied 1))) = Fin (3 / 4) \<and>
   js_div (geometry_width (plane (textured (Supplied 1))))
     (geometry_height (plane (textured (Supplied 1)))) = Fin (4 / 3) \<and>
   particles_width (particles (textured (Supplied 1))) = Fin (11 / 10) \<and>
   particles_height (particles (textured (Supplied 1))) = Fin (33 / 40) \<and>
   geometry_height (plane (new_Background (Synthesized 0) None 800 600)) = Fin 1 \<and>
   particles_width (particles (new_Background (Synthesized 0) None 800 600)) = Fin (11 / 10) \<and>
   particles_height (particles (new_Background (Synthesized 0) None 800 600)) = Fin (11 / 10)"
proof -
  let ?i = "\<lparr>image_width = 4, image_height = 3\<rparr>"
  let ?t = "\<lparr>image = Some ?i\<rparr>"
  note a = Background_sizing [of "Supplied 1" "Some ?t" 800 600]
  note b = Background_sizing [of "Synthesized 0" None 800 600]
  from a have a1: "geometry_width (plane (new_Background (Supplied 1) (Some ?t) 800 600)) = Fin 1"
    and a2: "particles_width (particles (new_Background (Supplied 1) (Some ?t) 800 600)) = Fin (11 / 10)"
    by blast+
  from a have "Some ?t = Some ?t \<and> image ?t = Some ?i \<longrightarrow>
      (0 < image_width ?i \<and> 0 < image_height ?i \<longrightarrow>
         geometry_height (plane (new_Background (Supplied 1) (Some ?t) 800 600)) =
           Fin (1 / (real (image_width ?i) / real (image_height ?i))) \<and>
         js_div (geometry_width (plane (new_Background (Supplied 1) (Some ?t) 800 600)))
                (geometry_height (plane (new_Background (Supplied 1) (Some ?t) 800 600))) =
           Fin (real (image_width ?i) / real (image_height ?i)) \<and>
         particles_height (particles (new_Background (Supplied 1) (Some ?t) 800 600)) =
           Fin (1 / (real (image_width ?i) / real (image_height ?i)) * (11 / 10)))"
    by blast
  then have a3: "geometry_height (plane (new_Background (Supplied 1) (Some ?t) 800 600)) = Fin (3 / 4)"
    and a4: "js_div (geometry_width (plane (new_Background (Supplied 1) (Some ?t) 800 600)))
                (geometry_height (plane (new_Background (Supplied 1) (Some ?t) 800 600))) = Fin (4 / 3)"
    and a5: "particles_height (particles (new_Background (Supplied 1) (Some ?t) 800 600)) = Fin (33 / 40)"
    using a1 by simp_all
  from b have b1: "geometry_height (plane (new_Background (Synthesized 0) None 800 600)) = Fin 1"
    and b2: "particles_height (particles (new_Background (Synthesized 0) None 800 600)) = Fin (11 / 10)"
    and b3: "particles_width (particles (new_Background (Synthesized 0) None 800 600)) = Fin (11 / 10)"
    by blast+
  from a1 a2 a3 a4 a5 b1 b2 b3 show ?thesis by (simp add: textured_def)
qed

text \<open>
  C10. Disposing a unit that was constructed with a \<open>null\<close> texture throws at the read of
  the material's map. The pass makes such units: the constructor without a background, and
  the end of a transition without a background, leave a blank unit as the previous one.
  Whenever the previous unit is blank, the callbacks that end a transition and the
  \<open>dispose\<close> of the pass throw that error. Two runs of the public interface reach it: a
  pass constructed without a background whose first transition completes, and a pass whose
  transition without a unit completes and whose next transition completes.
\<close>

theorem blank_unit_dispose_throws:
  "Background_dispose (new_Background r None w h) = Inl null_map \<and>
   material_map (prevBackground (new_TransitionPass None w h)) = None \<and>
   (\<forall>s'. onTransitionEnd None t = Inr s' \<longrightarrow> material_map (prevBackground s') = None) \<and>
   (material_map (prevBackground s) = None \<longrightarrow>
      base_onComplete cb s = Inl null_map \<and> base_onStop cb s = Inl null_map \<and>
      dispose s = Inl null_map) \<and>
   run [Transition (Some (textured (Supplied 1))) Blend (empty_config\<lparr>duration := Some 1\<rparr>) 0 0,
        Update 0, Update 1000] (new_TransitionPass None 800 600) = Inl null_map \<and>
   run [Transition None Blend empty_config 0 0, Update 0,
        Transition (Some (textured (Supplied 2))) Blend empty_config 0 0, Update 0]
       (new_TransitionPass (Some (textured (Supplied 1))) 800 600) = Inl null_map"
proof -
  have a: "Background_dispose (new_Background r None w h) = Inl null_map"
    by (simp add: Background_dispose_blank)
  have b: "material_map (prevBackground (new_TransitionPass None w h)) = None"
    by (simp add: new_TransitionPass_def)
  have c: "\<forall>s'. onTransitionEnd None t = Inr s' \<longrightarrow> material_map (prevBackground s') = None"
    by (auto simp add: onTransitionEnd_def then_do_def Let_def emit_def split: sum.splits)
  have d: "material_map (prevBackground s) = None \<longrightarrow>
      base_onComplete cb s = Inl null_map \<and> base_onStop cb s = Inl null_map \<and>
      dispose s = Inl null_map"
  proof
    assume m: "material_map (prevBackground s) = None"
    have st: "base_onStop cb' s = Inl null_map" for cb'
      using m by (simp add: base_onStop_def onTransitionEnd_blank user_def emit_def)
    have co: "base_onComplete cb s = Inl null_map"
      using m by (simp add: base_onComplete_def onTransitionEnd_blank user_def emit_def)
    have di: "dispose s = Inl null_map"
      using Tween_stop_cases [of "transition_tween s" s] m st
      by (auto simp add: dispose_def then_do_def Let_def Background_dispose_blank)
    from st co di show "base_onComplete cb s = Inl null_map \<and> base_onStop cb s = Inl null_map \<and>
      dispose s = Inl null_map" by simp
  qed
  have e: "run [Transition (Some (textured (Supplied 1))) Blend
                  (empty_config\<lparr>duration := Some 1\<rparr>) 0 0,
        Update 0, Update 1000] (new_TransitionPass None 800 600) = Inl null_map"
    by (simp add: run_defs)
  have f: "run [Transition None Blend empty_config 0 0, Update 0,
        Transition (Some (textured (Supplied 2))) Blend empty_config 0 0, Update 0]
       (new_TransitionPass (Some (textured (Supplied 1))) 800 600) = Inl null_map"
    by (simp add: run_defs)
  from a b c d e f show ?thesis by blast
qed

theorem blank_unit_dispose_throws_witness:
  "material_map (prevBackground (new_TransitionPass None 800 600)) = None \<and>
   dispose (new_TransitionPass None 800 600) = Inl null_map \<and>
   (\<exists>s'. onTransitionEnd None (new_TransitionPass (Some (textured (Supplied 1))) 800 600) = Inr s' \<and>
      material_map (prevBackground s') = None)"
proof -
  have ex: "\<exists>s'. onTransitionEnd None (new_TransitionPass (Some (textured (Supplied 1))) 800 600)
              = Inr s'"
    by (simp add: run_defs)
  show ?thesis
    using ex blank_unit_dispose_throws [of "Synthesized 0" 800 600
        "new_TransitionPass (Some (textured (Supplied 1))) 800 600"
        "new_TransitionPass None 800 600"]
    by blast
qed

section \<open>Disposing the pass\<close>

text \<open>
  C9 (the code departs from it). \<open>dispose\<close> on a pass on which no transition was ever
  started throws for every way of constructing the pass: at the previous unit's map when the
  pass was constructed without a background, and otherwise at
  \<open>this._transitionEffect.dispose()\<close>, since no effect has been constructed.
\<close>

theorem dispose_never_started_throws:
  "dispose (new_TransitionPass background w h) =
     Inl (if material_map (prevBackground (new_TransitionPass background w h)) = None
          then null_map else undefined_effect)"
  by (simp add: dispose_def new_TransitionPass_def Tween_stop_def new_Tween_def then_do_def
      Background_dispose_def null_map_def emit_def Let_def split: option.splits)

section \<open>Resolving the configuration\<close>

text \<open>
  C7. Whatever the caller leaves out of the configuration is resolved to its default:
  linear easing, duration 0 and delay 0 for every kind; gradient 0, angle 0 degrees (0
  radians) and direction Right for a wipe; 1 slide, intensity 1, 32 samples and direction
  Right for a slide; intensity 1 and 32 samples for a blur; and for a glitch the number
  \<open>Math.random()\<close> returns, which lies in \<open>[0, 1)\<close> when that call's result does. The
  effect the start callback constructs carries the resolved values as uniforms, so none
  is left unset.
\<close>

theorem config_defaults:
  fixes config :: BackgroundTransitionConfig and background :: "Background option" and rnd :: real
  defines "c \<equiv> \<lambda>kind. getTransitionConfig background kind config rnd"
  shows
  "(easing config = None \<longrightarrow> cfg_easing (c kind) = Linear_None) \<and>
   (duration config = None \<longrightarrow> cfg_duration (c kind) = 0) \<and>
   (delay config = None \<longrightarrow> cfg_delay (c kind) = 0) \<and>
   (\<exists>g a d. cb_resolved (cfg_callbacks (c Wipe)) = R_Wipe g a d \<and>
      (gradient config = None \<longrightarrow> g = 0) \<and>
      (angle config = None \<longrightarrow> a = 0 \<and> degToRad a = 0) \<and>
      (wipe_direction config = None \<longrightarrow> d = WipeDirection_Right) \<and>
      the_uniforms (onStart (cfg_callbacks (c Wipe)) s) ''gradient'' = Some (UNum (Fin g)) \<and>
      the_uniforms (onStart (cfg_callbacks (c Wipe)) s) ''angle'' = Some (UNum (Fin (degToRad a))) \<and>
      the_uniforms (onStart (cfg_callbacks (c Wipe)) s) ''direction'' = Some (UWipeDirection d)) \<and>
   (\<exists>n i m d. cb_resolved (cfg_callbacks (c Slide)) = R_Slide n i m d \<and>
      (slides config = None \<longrightarrow> n = 1) \<and>
      (intensity config = None \<longrightarrow> i = 1) \<and>
      (samples config = None \<longrightarrow> m = 32) \<and>
      (slide_direction config = None \<longrightarrow> d = SlideDirection_Right) \<and>
      the_uniforms (onStart (cfg_callbacks (c Slide)) s) ''slides'' = Some (UNum (Fin n)) \<and>
      the_uniforms (onStart (cfg_callbacks (c Slide)) s) ''intensity'' = Some (UNum (Fin i)) \<and>
      the_uniforms (onStart (cfg_callbacks (c Slide)) s) ''samples'' = Some (UNum (Fin m)) \<and>
      the_uniforms (onStart (cfg_callbacks (c Slide)) s) ''direction'' = Some (USlideDirection d)) \<and>
   (\<exists>i m. cb_resolved (cfg_callbacks (c Blur)) = R_Blur i m \<and>
      (intensity config = None \<longrightarrow> i = 1) \<and>
      (samples config = None \<longrightarrow> m = 32) \<and>
      the_uniforms (onStart (cfg_callbacks (c Blur)) s) ''intensity'' = Some (UNum (Fin i)) \<and>
      the_uniforms (onStart (cfg_callbacks (c Blur)) s) ''samples'' = Some (UNum (Fin m))) \<and>
   (\<exists>sd. cb_resolved (cfg_callbacks (c Glitch)) = R_Glitch sd \<and>
      (seed config = None \<longrightarrow> sd = rnd \<and> (0 \<le> rnd \<and> rnd < 1 \<longrightarrow> 0 \<le> sd \<and> sd < 1)) \<and>
      the_uniforms (onStart (cfg_callbacks (c Glitch)) s) ''seed'' = Some (UNum (Fin sd)))"
proof -
  have base: "(easing config = None \<longrightarrow> cfg_easing (c kind) = Linear_None) \<and>
   (duration config = None \<longrightarrow> cfg_duration (c kind) = 0) \<and>
   (delay config = None \<longrightarrow> cfg_delay (c kind) = 0)"
    by (simp add: c_def getTransitionConfig_def or_default_def)
  have wipe: "\<exists>g a d. cb_resolved (cfg_callbacks (c Wipe)) = R_Wipe g a d \<and>
      (gradient config = None \<longrightarrow> g = 0) \<and>
      (angle config = None \<longrightarrow> a = 0 \<and> degToRad a = 0) \<and>
      (wipe_direction config = None \<longrightarrow> d = WipeDirection_Right) \<and>
      the_uniforms (onStart (cfg_callbacks (c Wipe)) s) ''gradient'' = Some (UNum (Fin g)) \<and>
      the_uniforms (onStart (cfg_callbacks (c Wipe)) s) ''angle'' = Some (UNum (Fin (degToRad a))) \<and>
      the_uniforms (onStart (cfg_callbacks (c Wipe)) s) ''direction'' = Some (UWipeDirection d)"
    by (simp add: c_def getTransitionConfig_def resolve_def or_default_def onStart_def
        the_uniforms_setTransitionEffect degToRad_def)
  have slide: "\<exists>n i m d. cb_resolved (cfg_callbacks (c Slide)) = R_Slide n i m d \<and>
      (slides config = None \<longrightarrow> n = 1) \<and>
      (intensity config = None \<longrightarrow> i = 1) \<and>
      (samples config = None \<longrightarrow> m = 32) \<and>
      (slide_direction config = None \<longrightarrow> d = SlideDirection_Right) \<and>
      the_uniforms (onStart (cfg_callbacks (c Slide)) s) ''slides'' = Some (UNum (Fin n)) \<and>
      the_uniforms (onStart (cfg_callbacks (c Slide)) s) ''intensity'' = Some (UNum (Fin i)) \<and>
      the_uniforms (onStart (cfg_callbacks (c Slide)) s) ''samples'' = Some (UNum (Fin m)) \<and>
      the_uniforms (onStart (cfg_callbacks (c Slide)) s) ''direction'' = Some (USlideDirection d)"
    by (simp add: c_def getTransitionConfig_def resolve_def or_default_def onStart_def
        the_uniforms_setTransitionEffect)
  have blur: "\<exists>i m. cb_resolved (cfg_callbacks (c Blur)) = R_Blur i m \<and>
      (intensity config = None \<longrightarrow> i = 1) \<and>
      (samples config = None \<longrightarrow> m = 32) \<and>
      the_uniforms (onStart (cfg_callbacks (c Blur)) s) ''intensity'' = Some (UNum (Fin i)) \<and>
      the_uniforms (onStart (cfg_callbacks (c Blur)) s) ''samples'' = Some (UNum (Fin m))"
    by (simp add: c_def getTransitionConfig_def resolve_def or_default_def onStart_def
        the_uniforms_setTransitionEffect)
  have glitch: "\<exists>sd. cb_resolved (cfg_callbacks (c Glitch)) = R_Glitch sd \<and>
      (seed config = None \<longrightarrow> sd = rnd \<and> (0 \<le> rnd \<and> rnd < 1 \<longrightarrow> 0 \<le> sd \<and> sd < 1)) \<and>
      the_uniforms (onStart (cfg_callbacks (c Glitch)) s) ''seed'' = Some (UNum (Fin sd))"
    by (simp add: c_def getTransitionConfig_def resolve_def or_default_def onStart_def
        the_uniforms_setTransitionEffect Let_def)
  from base wipe slide blur glitch show ?thesis by blast
qed


theorem config_defaults_witness:
  "easing empty_config = None \<and> duration empty_config = None \<and> delay empty_config = None \<and>
   gradient empty_config = None \<and> angle empty_config = None \<and>
   wipe_direction empty_config = None \<and> slides empty_config = None \<and>
   intensity empty_config = None \<and> samples empty_config = None \<and>
   slide_direction empty_config = None \<and> seed empty_config = None \<and>
   (0::real) \<le> 1 / 2 \<and> (1::real) / 2 < 1 \<and>
   cfg_easing (getTransitionConfig None Wipe empty_config (1 / 2)) = Linear_None \<and>
   cfg_duration (getTransitionConfig None Wipe empty_config (1 / 2)) = 0 \<and>
   cfg_delay (getTransitionConfig None Wipe empty_config (1 / 2)) = 0 \<and>
   cb_resolved (cfg_callbacks (getTransitionConfig None Wipe empty_config (1 / 2))) =
     R_Wipe 0 0 WipeDirection_Right \<and>
   cb_resolved (cfg_callbacks (getTransitionConfig None Slide empty_config (1 / 2))) =
     R_Slide 1 1 32 SlideDirection_Right \<and>
   cb_resolved (cfg_callbacks (getTransitionConfig None Blur empty_config (1 / 2))) =
     R_Blur 1 32 \<and>
   cb_resolved (cfg_callbacks (getTransitionConfig None Glitch empty_config (1 / 2))) =
     R_Glitch (1 / 2)"
  using config_defaults [where config = empty_config and kind = Wipe and background = None
      and rnd = "1 / 2" and s = "new_TransitionPass None 800 600"]
  by (auto simp add: empty_config_def)

section \<open>Resizing during a transition\<close>

text \<open>
  C5. While a transition is active, every update of the animation at or after its start
  time writes the live size: for a wipe the uniform \<open>aspect\<close> becomes the width of the
  pass divided by its height as they are at that update, and for a glitch the vector that
  the uniform \<open>resolution\<close> refers to is set to that width and height. So after
  \<open>setSize(w, h)\<close> the very next update writes \<open>w / h\<close> and \<open>(w, h)\<close>, not the
  values the transition started with. That update returns, unless it completes the
  transition while the previous unit is a blank one.
\<close>

theorem setSize_live:
  assumes r: "reachable s" and p: "isTransitioning s"
    and d: "startTime (transition_tween s) \<le> time"
  shows "(\<forall>s'. TWEEN_update time s = Inr s' \<longrightarrow>
            (\<forall>g a dir. current_kind s = Some (R_Wipe g a dir) \<longrightarrow>
               the_uniforms s' ''aspect'' = Some (UNum (js_div (Fin (width s)) (Fin (height s))))) \<and>
            (\<forall>sd. current_kind s = Some (R_Glitch sd) \<longrightarrow>
               (\<exists>ad. the_uniforms s' ''resolution'' = Some (UVector2 ad) \<and>
                     vectors s' ad = (width s, height s)))) \<and>
         (material_map (prevBackground s) \<noteq> None \<or> elapsed_at (transition_tween s) time \<noteq> 1 \<longrightarrow>
            (\<exists>s'. TWEEN_update time (setSize w h s) = Inr s')) \<and>
         (\<forall>s'. TWEEN_update time (setSize w h s) = Inr s' \<longrightarrow>
            (\<forall>g a dir. current_kind s = Some (R_Wipe g a dir) \<longrightarrow>
               the_uniforms s' ''aspect'' = Some (UNum (js_div (Fin w) (Fin h)))) \<and>
            (\<forall>sd. current_kind s = Some (R_Glitch sd) \<longrightarrow>
               (\<exists>ad. the_uniforms s' ''resolution'' = Some (UVector2 ad) \<and>
                     vectors s' ad = (w, h))))"
proof -
  let ?t = "setSize w h s"
  have inv: "pass_inv s" using r by (rule reachable_pass_inv)
  have inv': "pass_inv ?t" using inv by (rule pass_inv_setSize)
  have p0: "isPlaying (transition_tween s)" using p by (simp add: isTransitioning_def)
  have p': "isPlaying (transition_tween ?t)" using p0 by simp
  have d': "startTime (transition_tween ?t) \<le> time" using d by simp
  have k: "current_kind ?t = current_kind s" by (simp add: current_kind_def)
  have a: "\<forall>s'. TWEEN_update time s = Inr s' \<longrightarrow>
            (\<forall>g a dir. current_kind s = Some (R_Wipe g a dir) \<longrightarrow>
               the_uniforms s' ''aspect'' = Some (UNum (js_div (Fin (width s)) (Fin (height s))))) \<and>
            (\<forall>sd. current_kind s = Some (R_Glitch sd) \<longrightarrow>
               (\<exists>ad. the_uniforms s' ''resolution'' = Some (UVector2 ad) \<and>
                     vectors s' ad = (width s, height s)))"
    using update_live_size [OF inv p0 d] by blast
  have b: "material_map (prevBackground s) \<noteq> None \<or> elapsed_at (transition_tween s) time \<noteq> 1 \<longrightarrow>
            (\<exists>s'. TWEEN_update time ?t = Inr s')"
    using TWEEN_update_returns [OF inv' p' d'] by simp
  have c: "\<forall>s'. TWEEN_update time ?t = Inr s' \<longrightarrow>
            (\<forall>g a dir. current_kind s = Some (R_Wipe g a dir) \<longrightarrow>
               the_uniforms s' ''aspect'' = Some (UNum (js_div (Fin w) (Fin h)))) \<and>
            (\<forall>sd. current_kind s = Some (R_Glitch sd) \<longrightarrow>
               (\<exists>ad. the_uniforms s' ''resolution'' = Some (UVector2 ad) \<and>
                     vectors s' ad = (w, h)))"
    using update_live_size [OF inv' p' d'] k by simp
  from a b c show ?thesis by blast
qed

theorem setSize_live_witness:
  "\<exists>s s' t t' ad.
     run [Transition (Some (textured (Supplied 1))) Wipe (empty_config\<lparr>duration := Some 1\<rparr>) 0 0,
          Update 0] init0 = Inr s \<and>
     isTransitioning s \<and> startTime (transition_tween s) \<le> 500 \<and>
     current_kind s = Some (R_Wipe 0 0 WipeDirection_Right) \<and>
     TWEEN_update 500 (setSize 400 200 s) = Inr s' \<and>
     the_uniforms s ''aspect'' = Some (UNum (Fin (4 / 3))) \<and>
     the_uniforms s' ''aspect'' = Some (UNum (Fin 2)) \<and>
     run [Transition (Some (textured (Supplied 1))) Glitch (empty_config\<lparr>duration := Some 1\<rparr>) 0 (1 / 2),
          Update 0] init0 = Inr t \<and>
     isTransitioning t \<and> startTime (transition_tween t) \<le> 500 \<and>
     current_kind t = Some (R_Glitch (1 / 2)) \<and>
     TWEEN_update 500 (setSize 400 200 t) = Inr t' \<and>
     the_uniforms t' ''resolution'' = Some (UVector2 ad) \<and> vectors t' ad = (400, 200)"
proof -
  have "\<exists>s. run [Transition (Some (textured (Supplied 1))) Wipe (empty_config\<lparr>duration := Some 1\<rparr>) 0 0,
          Update 0] init0 = Inr s \<and>
     isTransitioning s \<and> startTime (transition_tween s) \<le> 500 \<and>
     current_kind s = Some (R_Wipe 0 0 WipeDirection_Right) \<and>
     material_map (prevBackground s) \<noteq> None \<and>
     the_uniforms s ''aspect'' = Some (UNum (Fin (4 / 3)))"
    by (simp add: run_defs init0_def current_kind_def)
  then obtain s where s: "run [Transition (Some (textured (Supplied 1))) Wipe (empty_config\<lparr>duration := Some 1\<rparr>) 0 0,
          Update 0] init0 = Inr s" and sp: "isTransitioning s" "startTime (transition_tween s) \<le> 500"
     "current_kind s = Some (R_Wipe 0 0 WipeDirection_Right)" "material_map (prevBackground s) \<noteq> None"
     "the_uniforms s ''aspect'' = Some (UNum (Fin (4 / 3)))"
    by blast
  have rs: "reachable s"
    using run_reachable [OF _ s] by (simp add: init0_def reachable_new)
  have "\<exists>t. run [Transition (Some (textured (Supplied 1))) Glitch (empty_config\<lparr>duration := Some 1\<rparr>) 0 (1 / 2),
          Update 0] init0 = Inr t \<and>
     isTransitioning t \<and> startTime (transition_tween t) \<le> 500 \<and>
     current_kind t = Some (R_Glitch (1 / 2)) \<and>
     material_map (prevBackground t) \<noteq> None \<and>
     the_uniforms t ''resolution'' = Some (UVector2 0)"
    by (simp add: run_defs init0_def current_kind_def)
  then obtain t where t: "run [Transition (Some (textured (Supplied 1))) Glitch (empty_config\<lparr>duration := Some 1\<rparr>) 0 (1 / 2),
          Update 0] init0 = Inr t" and tp: "isTransitioning t" "startTime (transition_tween t) \<le> 500"
     "current_kind t = Some (R_Glitch (1 / 2))" "material_map (prevBackground t) \<noteq> None"
     "the_uniforms t ''resolution'' = Some (UVector2 0)"
    by blast
  have rt: "reachable t"
    using run_reachable [OF _ t] by (simp add: init0_def reachable_new)
  note ws = setSize_live [OF rs sp(1,2), of 400 200]
  note wt = setSize_live [OF rt tp(1,2), of 400 200]
  from ws sp(4) obtain s' where s': "TWEEN_update 500 (setSize 400 200 s) = Inr s'" by blast
  from wt tp(4) obtain t' where t': "TWEEN_update 500 (setSize 400 200 t) = Inr t'" by blast
  from ws s' sp(3) have 1: "the_uniforms s' ''aspect'' = Some (UNum (Fin 2))" by simp
  from wt t' tp(3) obtain ad where ad: "the_uniforms t' ''resolution'' = Some (UVector2 ad)"
    "vectors t' ad = (400, 200)" by blast
  from ad s s' sp 1 t t' tp show ?thesis by blast
qed

section \<open>The previous amount of a slide and of a blur\<close>

text \<open>
  C6. In a slide or a blur, take two updates of the animation at or after its start time,
  the first of which leaves the animation playing, with nothing but renders and resizes
  between them. The first writes the eased amount of its time as \<open>amount\<close>; the second
  writes as \<open>prevAmount\<close> exactly the \<open>amount\<close> the first wrote, and its own eased
  amount as \<open>amount\<close>. In the scenario of a slide with 2 slides, 2 seconds and
  direction Right under linear easing, with updates at 0.5 s and 1 s and a render between
  them, the update at 1 s writes amount 1/2 and prevAmount 1/4.
\<close>

theorem prevAmount_is_previous_amount:
  assumes r: "reachable s" and p: "isTransitioning s"
    and k: "current_kind s = Some (R_Slide n i m dir) \<or> current_kind s = Some (R_Blur i m)"
    and d1: "startTime (transition_tween s) \<le> t1" and u1: "TWEEN_update t1 s = Inr s1"
    and p1: "isTransitioning s1"
    and fr: "\<forall>c \<in> set frame. frame_call c" and rf: "run frame s1 = Inr s1'"
    and d2: "startTime (transition_tween s) \<le> t2" and u2: "TWEEN_update t2 s1' = Inr s2"
  shows "the_uniforms s1 ''amount'' =
           Some (UNum (Fin (tw_easingFunction (transition_tween s) (elapsed_at (transition_tween s) t1)))) \<and>
         the_uniforms s2 ''prevAmount'' = the_uniforms s1 ''amount'' \<and>
         the_uniforms s2 ''amount'' =
           Some (UNum (Fin (tw_easingFunction (transition_tween s) (elapsed_at (transition_tween s) t2)))) \<and>
         amounts (run [Transition (Some (textured (Supplied 1))) Slide
                         (empty_config\<lparr>duration := Some 2, slides := Some 2,
                            slide_direction := Some SlideDirection_Right\<rparr>) 0 0,
                       Update 500, Render (Buffer 0) (Buffer 1), Update 1000] init0) =
           Inr (Some (UNum (Fin (1 / 2))), Some (UNum (Fin (1 / 4))))"
proof -
  let ?tw = "transition_tween s"
  have inv: "pass_inv s" using r by (rule reachable_pass_inv)
  have p0: "isPlaying ?tw" using p by (simp add: isTransitioning_def)
  have v: "valuesStart ?tw = 0" "valuesEnd ?tw = 1"
    using inv p0 by (simp_all add: pass_inv_def)
  note a = update_prevAmount [OF inv p0 k d1 u1]
  have r1: "reachable s1" using r u1 reachable_step [of s "Update t1" s1] by simp
  have r1': "reachable s1'" using r1 rf by (rule run_reachable)
  have inv1: "pass_inv s1'" using r1' by (rule reachable_pass_inv)
  note same = frame_call_run [OF fr rf]
  have p1': "isPlaying (transition_tween s1)" using p1 by (simp add: isTransitioning_def)
  have tw1: "transition_tween s1' = ?tw\<lparr>onStartCallbackFired := True\<rparr>"
    using a(3) p1' same by simp
  have p1'': "isPlaying (transition_tween s1')" using p0 tw1 by simp
  have k1: "current_kind s1' = Some (R_Slide n i m dir) \<or> current_kind s1' = Some (R_Blur i m)"
    using k a(4) same by (simp add: current_kind_def)
  have d2': "startTime (transition_tween s1') \<le> t2" using d2 tw1 by simp
  note b = update_prevAmount [OF inv1 p1'' k1 d2' u2]
  have f1: "onStartCallbackFired (transition_tween s1')" using tw1 by simp
  have am: "the_uniforms s1' ''amount'' = Some (UNum (Fin (amount_at ?tw t1)))"
    using a(1) same by (simp add: the_uniforms_def)
  have 1: "the_uniforms s1 ''amount'' = Some (UNum (Fin (tw_easingFunction ?tw (elapsed_at ?tw t1))))"
    using a(1) v by (simp add: amount_at_eased)
  have 2: "the_uniforms s2 ''prevAmount'' = the_uniforms s1 ''amount''"
    using b(2) [OF f1 am] a(1) by simp
  have 3: "the_uniforms s2 ''amount'' = Some (UNum (Fin (tw_easingFunction ?tw (elapsed_at ?tw t2))))"
    using b(1) v tw1 by (simp add: amount_at_eased)
  have 4: "amounts (run [Transition (Some (textured (Supplied 1))) Slide
                         (empty_config\<lparr>duration := Some 2, slides := Some 2,
                            slide_direction := Some SlideDirection_Right\<rparr>) 0 0,
                       Update 500, Render (Buffer 0) (Buffer 1), Update 1000] init0) =
           Inr (Some (UNum (Fin (1 / 2))), Some (UNum (Fin (1 / 4))))"
    by (simp add: amounts_def init0_def run_defs)
  show ?thesis by (intro conjI) (rule 1 2 3 4)+
qed

theorem prevAmount_is_previous_amount_witness:
  "\<exists>s s1 s1' s2.
     run [Transition (Some (textured (Supplied 1))) Slide
            (empty_config\<lparr>duration := Some 2, slides := Some 2,
               slide_direction := Some SlideDirection_Right\<rparr>) 0 0] init0 = Inr s \<and>
     isTransitioning s \<and> current_kind s = Some (R_Slide 2 1 32 SlideDirection_Right) \<and>
     startTime (transition_tween s) \<le> 500 \<and> TWEEN_update 500 s = Inr s1 \<and>
     isTransitioning s1 \<and>
     frame_call (Render (Buffer 0) (Buffer 1)) \<and> run [Render (Buffer 0) (Buffer 1)] s1 = Inr s1' \<and>
     startTime (transition_tween s) \<le> 1000 \<and> TWEEN_update 1000 s1' = Inr s2 \<and>
     the_uniforms s1 ''amount'' = Some (UNum (Fin (1 / 4))) \<and>
     the_uniforms s2 ''prevAmount'' = Some (UNum (Fin (1 / 4))) \<and>
     the_uniforms s2 ''amount'' = Some (UNum (Fin (1 / 2)))"
proof -
  have "\<exists>s s1 s1' s2. run [Transition (Some (textured (Supplied 1))) Slide
            (empty_config\<lparr>duration := Some 2, slides := Some 2,
               slide_direction := Some SlideDirection_Right\<rparr>) 0 0] init0 = Inr s \<and>
     isTransitioning s \<and> current_kind s = Some (R_Slide 2 1 32 SlideDirection_Right) \<and>
     startTime (transition_tween s) \<le> 500 \<and> TWEEN_update 500 s = Inr s1 \<and>
     isTransitioning s1 \<and> run [Render (Buffer 0) (Buffer 1)] s1 = Inr s1' \<and>
     startTime (transition_tween s) \<le> 1000 \<and> TWEEN_update 1000 s1' = Inr s2 \<and>
     tw_easingFunction (transition_tween s) (elapsed_at (transition_tween s) 500) = 1 / 4 \<and>
     tw_easingFunction (transition_tween s) (elapsed_at (transition_tween s) 1000) = 1 / 2"
    by (simp add: run_defs init0_def current_kind_def)
  then obtain s s1 s1' s2 where s: "run [Transition (Some (textured (Supplied 1))) Slide
            (empty_config\<lparr>duration := Some 2, slides := Some 2,
               slide_direction := Some SlideDirection_Right\<rparr>) 0 0] init0 = Inr s"
    and f: "isTransitioning s" "current_kind s = Some (R_Slide 2 1 32 SlideDirection_Right)"
     "startTime (transition_tween s) \<le> 500" "TWEEN_update 500 s = Inr s1"
     "isTransitioning s1" "run [Render (Buffer 0) (Buffer 1)] s1 = Inr s1'"
     "startTime (transition_tween s) \<le> 1000" "TWEEN_update 1000 s1' = Inr s2"
     "tw_easingFunction (transition_tween s) (elapsed_at (transition_tween s) 500) = 1 / 4"
     "tw_easingFunction (transition_tween s) (elapsed_at (transition_tween s) 1000) = 1 / 2"
    by blast
  have rs: "reachable s"
    using run_reachable [OF _ s] by (simp add: init0_def reachable_new)
  have fr: "\<forall>c \<in> set [Render (Buffer 0) (Buffer 1)]. frame_call c" by simp
  from prevAmount_is_previous_amount [OF rs f(1) disjI1 [OF f(2)] f(3) f(4) f(5) fr f(6) f(7) f(8)]
    f(9,10)
  have "the_uniforms s1 ''amount'' = Some (UNum (Fin (1 / 4))) \<and>
     the_uniforms s2 ''prevAmount'' = Some (UNum (Fin (1 / 4))) \<and>
     the_uniforms s2 ''amount'' = Some (UNum (Fin (1 / 2)))"
    by simp
  with s f show ?thesis by auto
qed

section \<open>The enabled flag and \<open>isTransitioning\<close>\<close>





section \<open>A transition that interrupts another\<close>

text \<open>
  C1, as the spec states it, fails in its last part. A first transition has started and
  constructed effect 0; a second \<open>transition\<close> call stops it and disposes the previous
  unit; a \<open>render\<close> call made before the second animation's first update then renders
  the new previous unit through effect 0, which has not been disposed: the trace of that run
  has no disposal of effect 0 before the render.
\<close>

theorem stale_effect_counterexample:
  "trace_of (run [Transition (Some (textured (Supplied 1))) Blend
                    (empty_config\<lparr>duration := Some 1\<rparr>) 0 0,
                  Update 0,
                  Transition (Some (textured (Supplied 2))) Blend
                    (empty_config\<lparr>duration := Some 1\<rparr>) 100 0,
                  Render (Buffer 0) (Buffer 1)] init0) =
   Inr [UserCallback ''onInit'' [Some (Supplied 0), Some (Supplied 1)],
        EffectConstruct 0 BlendShader,
        UserCallback ''onStart'' [Some (Supplied 0), Some (Supplied 1)],
        UserCallback ''onUpdate'' [Some (Supplied 0), Some (Supplied 1)],
        UserCallback ''onStop'' [Some (Supplied 0), Some (Supplied 1)],
        BackgroundDispose (Supplied 0),
        UserCallback ''onInit'' [Some (Supplied 1), Some (Supplied 2)],
        BackgroundRender (Supplied 1) PassBuffer,
        EffectRender 0 (Buffer 0) PassBuffer (Buffer 1)]"
  by (simp add: trace_of_def init0_def run_defs)

text \<open>
  C1, amended. When \<open>transition\<close> is called while the previous animation is playing and
  the call returns: the previous animation has been stopped and joins the replaced tweens,
  none of which plays, and the new animation plays; within the call the stop callback of
  the previous transition has run and the previous unit has been disposed, and the previous
  unit is now the first transition's target (or a fresh blank unit); the effect is left as
  it was. The first update of the new animation at or after its start time disposes that
  effect and constructs the new one right after it. In every state reached from there, no
  replaced tween plays, and every render of an effect in the trace comes after the disposal
  of every effect constructed before it.
\<close>

theorem transition_interrupts_previous:
  assumes r: "reachable s" and p: "isTransitioning s"
    and tr: "transition background kind config now rnd s = Inr s'"
  shows "replaced_tweens s' = replaced_tweens s @ [(transition_tween s)\<lparr>isPlaying := False\<rparr>] \<and>
         (\<forall>tw \<in> set (replaced_tweens s'). \<not> isPlaying tw) \<and>
         isPlaying (transition_tween s') \<and>
         (\<exists>cb. tw_callbacks (transition_tween s) = Some cb \<and>
            trace s' = trace s @
              [UserCallback ''onStop''
                 [Some (bg_ref (prevBackground s)), map_option bg_ref (cb_background cb)],
               BackgroundDispose (bg_ref (prevBackground s)),
               UserCallback ''onInit''
                 [Some (bg_ref (prevBackground s')), map_option bg_ref background]] \<and>
            prevBackground s' =
              (case cb_background cb of
                 Some b \<Rightarrow> b
               | None \<Rightarrow> new_Background (Synthesized (blanks_made s)) None (width s) (height s))) \<and>
         transitionEffect s' = transitionEffect s \<and>
         (\<forall>time s''. TWEEN_update time s' = Inr s'' \<and> startTime (transition_tween s') \<le> time \<longrightarrow>
            (\<exists>sh rest.
               trace s'' =
                 trace s' @
                 (case transitionEffect s of None \<Rightarrow> [] | Some e \<Rightarrow> [EffectDispose (effect_id e)]) @
                 [EffectConstruct (effects_made s) sh] @ rest \<and>
               (\<forall>ev \<in> set rest. \<not> is_render ev) \<and>
               map_option effect_id (transitionEffect s'') = Some (effects_made s))) \<and>
         (\<forall>cs u. run cs s' = Inr u \<longrightarrow>
            renders_follow_disposals (trace u) \<and> (\<forall>tw \<in> set (replaced_tweens u). \<not> isPlaying tw))"
proof -
  have inv: "pass_inv s" using r by (rule reachable_pass_inv)
  have p0: "isPlaying (transition_tween s)" using p by (simp add: isTransitioning_def)
  have r': "reachable s'"
    using r tr reachable_step [of s "Transition background kind config now rnd" s'] by simp
  have inv': "pass_inv s'" using r' by (rule reachable_pass_inv)
  note f = transition_fields [OF inv tr]
  have a: "replaced_tweens s' = replaced_tweens s @ [(transition_tween s)\<lparr>isPlaying := False\<rparr>]"
    by (rule f(2))
  have b: "\<forall>tw \<in> set (replaced_tweens s'). \<not> isPlaying tw"
    using inv' unfolding pass_inv_def by blast
  have c: "isPlaying (transition_tween s')" "\<not> onStartCallbackFired (transition_tween s')"
    by (simp_all add: f(1) start_Tween_def)
  note d = transition_trace [OF inv p0 tr]
  have e: "transitionEffect s' = transitionEffect s" by (rule f(4))
  have g: "\<forall>time s''. TWEEN_update time s' = Inr s'' \<and> startTime (transition_tween s') \<le> time \<longrightarrow>
            (\<exists>sh rest.
               trace s'' =
                 trace s' @
                 (case transitionEffect s of None \<Rightarrow> [] | Some e \<Rightarrow> [EffectDispose (effect_id e)]) @
                 [EffectConstruct (effects_made s) sh] @ rest \<and>
               (\<forall>ev \<in> set rest. \<not> is_render ev) \<and>
               map_option effect_id (transitionEffect s'') = Some (effects_made s))"
  proof (intro allI impI)
    fix time s''
    assume h: "TWEEN_update time s' = Inr s'' \<and> startTime (transition_tween s') \<le> time"
    then have "TWEEN_update time s' = Inr s''" "startTime (transition_tween s') \<le> time"
      by simp_all
    from TWEEN_update_first [OF inv' c(1) c(2) this(2) this(1)]
    show "\<exists>sh rest.
               trace s'' =
                 trace s' @
                 (case transitionEffect s of None \<Rightarrow> [] | Some e \<Rightarrow> [EffectDispose (effect_id e)]) @
                 [EffectConstruct (effects_made s) sh] @ rest \<and>
               (\<forall>ev \<in> set rest. \<not> is_render ev) \<and>
               map_option effect_id (transitionEffect s'') = Some (effects_made s)"
      by (simp add: e f(5))
  qed
  have h: "\<forall>cs u. run cs s' = Inr u \<longrightarrow>
            renders_follow_disposals (trace u) \<and> (\<forall>tw \<in> set (replaced_tweens u). \<not> isPlaying tw)"
  proof (intro allI impI)
    fix cs u assume "run cs s' = Inr u"
    with r' have ru: "reachable u" by (rule run_reachable)
    from reachable_effects_inv [OF ru] have 1: "renders_follow_disposals (trace u)"
      by (simp add: effects_inv_def)
    from reachable_pass_inv [OF ru] have 2: "\<forall>tw \<in> set (replaced_tweens u). \<not> isPlaying tw"
      unfolding pass_inv_def by blast
    from 1 2 show "renders_follow_disposals (trace u) \<and>
        (\<forall>tw \<in> set (replaced_tweens u). \<not> isPlaying tw)" ..
  qed
  show ?thesis
    by (intro conjI) (rule a b c(1) d e g h)+
qed


theorem transition_interrupts_previous_witness:
  "\<exists>s s' s''.
     run [Transition (Some (textured (Supplied 1))) Blend
            (empty_config\<lparr>duration := Some 1\<rparr>) 0 0, Update 0] init0 = Inr s \<and>
     isTransitioning s \<and>
     transition (Some (textured (Supplied 2))) Blend (empty_config\<lparr>duration := Some 1\<rparr>) 100 0 s
       = Inr s' \<and>
     startTime (transition_tween s') \<le> 100 \<and> TWEEN_update 100 s' = Inr s'' \<and>
     run [Update 100] s' = Inr s'' \<and>
     map_option effect_id (transitionEffect s) = Some 0 \<and> effects_made s = 1 \<and>
     isPlaying (transition_tween s') \<and>
     BackgroundDispose (Supplied 0) \<in> set (trace s') \<and>
     transitionEffect s' = transitionEffect s \<and>
     EffectDispose 0 \<in> set (trace s'') \<and>
     map_option effect_id (transitionEffect s'') = Some 1 \<and>
     renders_follow_disposals (trace s'')"
proof -
  have "\<exists>s s' s''.
     run [Transition (Some (textured (Supplied 1))) Blend
            (empty_config\<lparr>duration := Some 1\<rparr>) 0 0, Update 0] init0 = Inr s \<and>
     isTransitioning s \<and>
     transition (Some (textured (Supplied 2))) Blend (empty_config\<lparr>duration := Some 1\<rparr>) 100 0 s
       = Inr s' \<and>
     startTime (transition_tween s') \<le> 100 \<and> TWEEN_update 100 s' = Inr s'' \<and>
     map_option effect_id (transitionEffect s) = Some 0 \<and> effects_made s = 1 \<and>
     bg_ref (prevBackground s) = Supplied 0"
    by (simp add: run_defs init0_def)
  then obtain s s' s'' where s: "run [Transition (Some (textured (Supplied 1))) Blend
            (empty_config\<lparr>duration := Some 1\<rparr>) 0 0, Update 0] init0 = Inr s"
    and f: "isTransitioning s"
     "transition (Some (textured (Supplied 2))) Blend (empty_config\<lparr>duration := Some 1\<rparr>) 100 0 s
       = Inr s'"
     "startTime (transition_tween s') \<le> 100" "TWEEN_update 100 s' = Inr s''"
     "map_option effect_id (transitionEffect s) = Some 0" "effects_made s = 1"
     "bg_ref (prevBackground s) = Supplied 0"
    by blast
  have rs: "reachable s"
    using run_reachable [OF _ s] by (simp add: init0_def reachable_new)
  have ru: "run [Update 100] s' = Inr s''" using f(4) by (simp add: then_do_def)
  note w = transition_interrupts_previous [OF rs f(1) f(2)]
  from w have 1: "isPlaying (transition_tween s')" "transitionEffect s' = transitionEffect s"
    by blast+
  from w f(7) have 2: "BackgroundDispose (Supplied 0) \<in> set (trace s')" by auto
  from w f(3,4) obtain sh rest where
    "trace s'' = trace s' @
       (case transitionEffect s of None \<Rightarrow> [] | Some e \<Rightarrow> [EffectDispose (effect_id e)]) @
       [EffectConstruct (effects_made s) sh] @ rest"
    and 3: "map_option effect_id (transitionEffect s'') = Some (effects_made s)"
    by blast
  with f(5) have 4: "EffectDispose 0 \<in> set (trace s'')"
    by (cases "transitionEffect s") auto
  from w ru have 5: "renders_follow_disposals (trace s'')" by blast
  from s f ru 1 2 3 4 5 show ?thesis by auto
qed

section \<open>The end of a transition\<close>

text \<open>
  C2 (the code departs from it). On a pass constructed without a background the previous
  unit is a blank one. A Blend transition of one second to a textured unit starts and is
  under way at 0.5 s; at 1 s it completes, the complete callback disables the pass and
  disposes the previous unit, and that disposal throws at the material's map, so the
  previous unit is never replaced by the supplied one. Stopping the transition by a second
  \<open>transition\<close> call throws in the same way.
\<close>

theorem transition_end_blank_previous_throws:
  "flags (run [Transition (Some (textured (Supplied 1))) Blend
                 (empty_config\<lparr>duration := Some 1\<rparr>) 0 0,
               Update 0, Update 500] (new_TransitionPass None 800 600)) = Inr (True, True) \<and>
   run [Transition (Some (textured (Supplied 1))) Blend (empty_config\<lparr>duration := Some 1\<rparr>) 0 0,
        Update 0, Update 1000] (new_TransitionPass None 800 600) = Inl null_map \<and>
   run [Transition (Some (textured (Supplied 1))) Blend (empty_config\<lparr>duration := Some 1\<rparr>) 0 0,
        Update 0,
        Transition (Some (textured (Supplied 2))) Blend (empty_config\<lparr>duration := Some 1\<rparr>) 500 0]
       (new_TransitionPass None 800 600) = Inl null_map"
  by (simp add: flags_def run_defs)

section \<open>Rendering before the effect exists\<close>

text \<open>
  C4 (the code departs from it). \<open>render\<close> is guarded by \<open>isTransitioning()\<close>, which
  is true from the \<open>transition\<close> call on, while the effect is constructed by the start
  callback at the animation's first update. A \<open>render\<close> call right after the first
  \<open>transition\<close> call, or during its delay, renders the previous unit and then reads
  \<open>this._transitionEffect.render\<close> with no effect there, which throws.
\<close>

theorem render_before_start_throws:
  "run [Transition (Some (textured (Supplied 1))) Blend (empty_config\<lparr>duration := Some 1\<rparr>) 0 0,
        Render (Buffer 0) (Buffer 1)] init0 = Inl undefined_effect \<and>
   run [Transition (Some (textured (Supplied 1))) Blend
          (empty_config\<lparr>duration := Some 1, delay := Some 1\<rparr>) 0 0,
        Update 500, Render (Buffer 0) (Buffer 1)] init0 = Inl undefined_effect"
  by (simp add: init0_def run_defs)

end
